theory Spec2Isabelle
  imports
    Complex_Main
    "HOL-Library.Char_ord"
    "HOL-Library.List_Lexorder"
    "HOL-Library.Product_Lexorder"
    "HOL-Library.Sublist"
begin

section \<open>Data model\<close>

text \<open>
  The application holds two pandas tables, loaded once: the play-by-play table
  \<open>pbp_df\<close> and the player box-score table \<open>box_df\<close>. A table is a list of rows, in
  row order. A column the source tests for missing values (\<open>pd.notna\<close>, \<open>na=False\<close>,
  \<open>dropna\<close>) holds an \<open>option\<close>, with \<open>None\<close> for pandas' NaN.

  A calendar date is the triple (year, month, day), ordered lexicographically, which is
  the order \<open>sort_values('game_date')\<close> sorts by. Strings are byte strings; lower-casing
  and white space, where the source applies them to a fixed ASCII pattern, are the ASCII
  ones.

  A cell of a player identifier column keeps its representation: an integer of an integer
  column, a float of a floating column (identifiers are whole numbers, so the float is
  given by the integer it equals), or the missing value NaN of a floating column.
\<close>

datatype id_cell = IntId int | FloatId int | NaN

type_synonym date = "nat \<times> nat \<times> nat"

record play_event =
  game_id :: int
  game_date :: date
  home_team_id :: int
  away_team_id :: int
  home_team_name :: string
  away_team_name :: string
  home_score :: "int option"
  away_score :: "int option"
  athlete_id_1 :: id_cell
  team_id :: "int option"
  type_text :: "string option"
  shooting_play :: bool
  scoring_play :: bool
  coordinate_x :: rat
  coordinate_y :: rat

record box_row =
  box_game_id :: int
  athlete_id :: id_cell
  athlete_display_name :: "string option"
  box_team_id :: int
  team_display_name :: "string option"

text \<open>
  A row of \<open>get_team_games\<close>' result: the game identifier and the seven columns selected
  after \<open>groupby('game_id').last()\<close>.
\<close>

record game_info =
  gi_game_id :: int
  gi_game_date :: date
  gi_home_team_name :: string
  gi_away_team_name :: string
  gi_home_score :: "int option"
  gi_away_score :: "int option"
  gi_home_team_id :: int
  gi_away_team_id :: int

text \<open>
  A row of the play-by-play table after the left merge with the names of the box score:
  the play and the display name joined to it (\<open>None\<close> when no name matched, or the
  matched name is missing).
\<close>

record merged_row =
  play :: play_event
  merged_name :: "string option"

datatype py_error = IndexError | ValueError | ZeroDivisionError

text \<open>A Flask response: a JSON body with status 200, or the 404 body with its message.\<close>

datatype 'a response = Ok 'a | NotFound string

section \<open>pandas and Python primitives\<close>

text \<open>
  The float64 nearest to an integer, as the integer it equals: an integer of at most 53
  bits is kept, a longer one is rounded to 53 significant bits, a tie to the even side.
\<close>

fun bit_length :: "nat \<Rightarrow> nat" where
  "bit_length n = (if n = 0 then 0 else Suc (bit_length (n div 2)))"

declare bit_length.simps [simp del]

definition float_of_int :: "int \<Rightarrow> int" where
  "float_of_int n =
     (let k = bit_length (nat \<bar>n\<bar>)
      in if k \<le> 53 then n
         else
           (let ulp = 2 ^ (k - 53); q = n div ulp; r = n mod ulp
            in if 2 * r < ulp then q * ulp
               else if ulp < 2 * r then (q + 1) * ulp
               else if even q then q * ulp else (q + 1) * ulp))"

text \<open>\<open>Series.astype(float)\<close> on a cell of an identifier column.\<close>

definition astype_float :: "id_cell \<Rightarrow> id_cell" where
  "astype_float c = (case c of IntId n \<Rightarrow> FloatId (float_of_int n) | FloatId f \<Rightarrow> FloatId f | NaN \<Rightarrow> NaN)"

text \<open>
  The key of a cell in a merge of an integer or floating column with a floating column:
  pandas compares both sides as float64, and a missing key matches a missing key.
\<close>

definition merge_key :: "id_cell \<Rightarrow> int option" where
  "merge_key c = (case c of IntId n \<Rightarrow> Some (float_of_int n) | FloatId f \<Rightarrow> Some f | NaN \<Rightarrow> None)"



text \<open>\<open>drop_duplicates()\<close> and \<open>unique()\<close>: the first occurrence of each value, in order.\<close>

definition unique :: "'a list \<Rightarrow> 'a list" where
  "unique xs = rev (remdups (rev xs))"

text \<open>\<open>dropna()\<close> on a column.\<close>

definition dropna :: "'a option list \<Rightarrow> 'a list" where
  "dropna xs = List.map_filter id xs"

text \<open>
  One column of \<open>GroupBy.last()\<close>: the last entry of the group that is not missing
  (pandas skips NaN per column), and NaN when the group has none.
\<close>

definition last_valid :: "'a option list \<Rightarrow> 'a option" where
  "last_valid xs = (case filter (\<lambda>x. x \<noteq> None) xs of [] \<Rightarrow> None | y # ys \<Rightarrow> last (y # ys))"

text \<open>
  Elementwise \<open>column == value\<close> on a column with missing values: NaN equals nothing,
  itself included.
\<close>

definition eq_na :: "'a option \<Rightarrow> 'a option \<Rightarrow> bool" where
  "eq_na a b = (a \<noteq> None \<and> a = b)"

text \<open>
  Lower-casing of the ASCII letters: a letter from A to Z gets the bit of weight 32 set,
  which makes it the letter from a to z; every other character stays. It decides the
  match of the pattern \<open>FreeThrow\<close> with \<open>case=False\<close>, whose letters have no other case
  variants, and it is what \<open>str.lower()\<close> does on an ASCII string.
\<close>

definition lower_char :: "char \<Rightarrow> char" where
  "lower_char c =
     (if CHR ''A'' \<le> c \<and> c \<le> CHR ''Z''
      then Char (digit0 c) (digit1 c) (digit2 c) (digit3 c) (digit4 c) True (digit6 c) (digit7 c)
      else c)"

definition lower :: "string \<Rightarrow> string" where
  "lower s = map lower_char s"

text \<open>
  The ASCII white space that \<open>str.split()\<close> splits at: the blank, the controls 9 to 13
  (tab, line feed, vertical tab, form feed, carriage return) and the separators 28 to 31.
\<close>

definition is_space :: "char \<Rightarrow> bool" where
  "is_space c =
     (c \<in> set [CHR '' '', CHR 0x09, CHR 0x0A, CHR 0x0B, CHR 0x0C, CHR 0x0D,
                CHR 0x1C, CHR 0x1D, CHR 0x1E, CHR 0x1F])"

text \<open>
  Splitting at white space, for a given set of white space characters: the maximal runs
  of characters that are not white space.
\<close>

fun split_at :: "(char \<Rightarrow> bool) \<Rightarrow> string \<Rightarrow> string \<Rightarrow> string list" where
  "split_at sp cur [] = (if cur = [] then [] else [cur])"
| "split_at sp cur (c # cs) =
     (if sp c then (if cur = [] then split_at sp [] cs else cur # split_at sp [] cs)
      else split_at sp (cur @ [c]) cs)"

text \<open>
  \<open>str.lower()\<close> and \<open>str.split()\<close> are functions of the Python runtime that follow the
  Unicode tables, which are no part of the program; the search takes them as parameters.
  On a string of ASCII characters they are \<open>lower\<close> and \<open>str_split\<close>. With a byte read
  as the Latin-1 character of that code, they are \<open>latin1_lower\<close> and \<open>latin1_split\<close>:
  the letters from 0xC0 to 0xDE except the sign 0xD7 have their small letters 32 higher,
  and 0x85 and 0xA0 are white space too.
\<close>

definition str_split :: "string \<Rightarrow> string list" where
  "str_split s = split_at is_space [] s"

definition is_ascii :: "string \<Rightarrow> bool" where
  "is_ascii s = list_all (\<lambda>c. \<not> digit7 c) s"

definition latin1_lower_char :: "char \<Rightarrow> char" where
  "latin1_lower_char c =
     (if digit7 c
      then (if digit6 c \<and> \<not> digit5 c \<and> c \<noteq> CHR 0xD7 \<and> c \<noteq> CHR 0xDF
            then Char (digit0 c) (digit1 c) (digit2 c) (digit3 c) (digit4 c) True (digit6 c) (digit7 c)
            else c)
      else lower_char c)"

definition latin1_lower :: "string \<Rightarrow> string" where
  "latin1_lower s = map latin1_lower_char s"

definition latin1_is_space :: "char \<Rightarrow> bool" where
  "latin1_is_space c = (is_space c \<or> c = CHR 0x85 \<or> c = CHR 0xA0)"

definition latin1_split :: "string \<Rightarrow> string list" where
  "latin1_split s = split_at latin1_is_space [] s"

text \<open>\<open>str(x)\<close> of a cell: the string itself, and \<open>'nan'\<close> for a missing value.\<close>

definition str_cell :: "string option \<Rightarrow> string" where
  "str_cell x = (case x of None \<Rightarrow> ''nan'' | Some s \<Rightarrow> s)"

text \<open>
  \<open>Series.str.contains(pat, case=False, na=False)\<close> for a pattern of plain letters: a
  case-insensitive substring test, false on a missing value.
\<close>

definition str_contains :: "string \<Rightarrow> string option \<Rightarrow> bool" where
  "str_contains pat x = (case x of None \<Rightarrow> False | Some s \<Rightarrow> sublist (lower pat) (lower s))"

definition digit_char :: "nat \<Rightarrow> char" where
  "digit_char d = ''0123456789'' ! d"

fun str_nat :: "nat \<Rightarrow> string" where
  "str_nat n = (if n < 10 then [digit_char n] else str_nat (n div 10) @ [digit_char (n mod 10)])"

declare str_nat.simps [simp del]

definition str_int :: "int \<Rightarrow> string" where
  "str_int i = (if i < 0 then CHR ''-'' # str_nat (nat (- i)) else str_nat (nat i))"

definition pad2 :: "nat \<Rightarrow> string" where
  "pad2 n = (if n < 10 then CHR ''0'' # str_nat n else str_nat n)"

text \<open>\<open>pd.to_datetime(d).strftime('%m/%d/%Y')\<close>.\<close>

definition strftime :: "date \<Rightarrow> string" where
  "strftime d = (case d of (y, m, dd) \<Rightarrow> pad2 m @ ''/'' @ pad2 dd @ ''/'' @ str_nat y)"

text \<open>
  A Python float that the routes compute is kept as the operations that produce it: the
  true division of two counts, and the product of a float with an integer. Its value is
  what IEEE double arithmetic gives for these operations, each rounded; \<open>float_value\<close>
  states it for a rounding function. A reported number is the integer of the \<open>else\<close>
  branch or such a float.
\<close>

datatype py_float = TrueDiv nat nat | FMul py_float int

datatype py_num = PyInt int | PyFloat py_float

fun float_value :: "(rat \<Rightarrow> rat) \<Rightarrow> py_float \<Rightarrow> rat" where
  "float_value rnd (TrueDiv a b) = rnd (of_nat a / of_nat b)"
| "float_value rnd (FMul x k) = rnd (float_value rnd x * of_int k)"

text \<open>\<open>a / b\<close> on two counts: ZeroDivisionError for a zero divisor.\<close>

definition py_truediv :: "nat \<Rightarrow> nat \<Rightarrow> py_error + py_float" where
  "py_truediv a b = (if b = 0 then Inl ZeroDivisionError else Inr (TrueDiv a b))"

text \<open>
  The percentage every aggregation reports, \<open>(makes / total * 100) if total > 0 else 0\<close>.
\<close>

definition percentage_of :: "nat \<Rightarrow> nat \<Rightarrow> py_error + py_num" where
  "percentage_of makes n =
     (if n > 0
      then (case py_truediv makes n of Inl e \<Rightarrow> Inl e | Inr q \<Rightarrow> Inr (PyFloat (FMul q 100)))
      else Inr (PyInt 0))"

text \<open>A loop that builds a list and stops at the first exception.\<close>

fun map_rows :: "('k \<Rightarrow> py_error + 'a) \<Rightarrow> 'k list \<Rightarrow> py_error + 'a list" where
  "map_rows body [] = Inr []"
| "map_rows body (k # ks) =
     (case body k of
        Inl e \<Rightarrow> Inl e
      | Inr r \<Rightarrow> (case map_rows body ks of Inl e \<Rightarrow> Inl e | Inr rs \<Rightarrow> Inr (r # rs)))"

section \<open>Game listing\<close>

text \<open>
  \<open>groupby('game_id').last()\<close> on one group: the identifier and, per column, the last
  value of the group that is not missing.
\<close>

definition group_last :: "int \<Rightarrow> play_event list \<Rightarrow> game_info" where
  "group_last g rows =
     \<lparr> gi_game_id = g,
       gi_game_date = last (map game_date rows),
       gi_home_team_name = last (map home_team_name rows),
       gi_away_team_name = last (map away_team_name rows),
       gi_home_score = last_valid (map home_score rows),
       gi_away_score = last_valid (map away_score rows),
       gi_home_team_id = last (map home_team_id rows),
       gi_away_team_id = last (map away_team_id rows) \<rparr>"

text \<open>
  The groups come in ascending order of the key; \<open>sort_values('game_date')\<close> then orders
  the rows by date (rows of one date are kept here in the order they had).
\<close>

definition get_team_games :: "play_event list \<Rightarrow> int \<Rightarrow> game_info list" where
  "get_team_games pbp_df tid =
     (let team_games = filter (\<lambda>r. home_team_id r = tid \<or> away_team_id r = tid) pbp_df;
          keys = sort (unique (map game_id team_games));
          game_info = map (\<lambda>g. group_last g (filter (\<lambda>r. game_id r = g) team_games)) keys
      in sort_key gi_game_date game_info)"

text \<open>
  The rows \<open>team_games\<close> that \<open>get_team_games\<close> groups, and the group of one game
  among them.
\<close>

definition team_rows :: "play_event list \<Rightarrow> int \<Rightarrow> play_event list" where
  "team_rows pbp_df tid = filter (\<lambda>r. home_team_id r = tid \<or> away_team_id r = tid) pbp_df"

definition game_group :: "play_event list \<Rightarrow> int \<Rightarrow> int \<Rightarrow> play_event list" where
  "game_group pbp_df tid g = filter (\<lambda>r. game_id r = g) (team_rows pbp_df tid)"

section \<open>Shot extraction\<close>

text \<open>
  The left merge of the plays with the names on \<open>athlete_id_1 = athlete_id\<close>: each play
  once per name row with the same merge key, in the order of the names, and once with no
  name when nothing matches.
\<close>

definition merge_names :: "play_event list \<Rightarrow> (id_cell \<times> string option) list \<Rightarrow> merged_row list" where
  "merge_names plays names =
     concat (map (\<lambda>e. case filter (\<lambda>n. merge_key (fst n) = merge_key (athlete_id_1 e)) names of
                         [] \<Rightarrow> [\<lparr> play = e, merged_name = None \<rparr>]
                       | m # ms \<Rightarrow> map (\<lambda>n. \<lparr> play = e, merged_name = snd n \<rparr>) (m # ms)) plays)"

definition get_player_shots ::
  "box_row list \<Rightarrow> play_event list \<Rightarrow> int \<Rightarrow> int \<Rightarrow> merged_row list \<times> (id_cell \<times> string option) list" where
  "get_player_shots box_df pbp_df gid tid =
     (let game_box = filter (\<lambda>b. box_game_id b = gid) box_df;
          names = map (\<lambda>n. (astype_float (fst n), snd n))
                    (unique (map (\<lambda>b. (athlete_id b, athlete_display_name b)) game_box));
          game_shots = merge_names (filter (\<lambda>e. game_id e = gid) pbp_df) names;
          team_shots = filter (\<lambda>m. team_id (play m) = Some tid \<and> shooting_play (play m) \<and>
                                    \<not> str_contains ''FreeThrow'' (type_text (play m))) game_shots;
          team_players = unique (map (\<lambda>b. (athlete_id b, athlete_display_name b))
                                   (filter (\<lambda>b. box_team_id b = tid) game_box))
      in (team_shots, team_players))"

section \<open>Routes\<close>

record game_entry =
  entry_game_id :: int
  date :: string
  opponent :: string
  location :: string
  score :: string

record player_game_entry = game_entry +
  pg_shots :: nat
  pg_makes :: nat

record player_entry =
  player_id :: nat
  name :: string
  shots :: nat
  makes :: nat
  percentage :: py_num

record search_entry =
  player_name :: "string option"
  team_name :: string
  se_team_id :: int
  total_games :: nat
  total_shots :: nat
  total_makes :: nat

record chart_stats =
  stat_makes :: nat
  stat_misses :: nat
  stat_total :: nat
  stat_percentage :: py_num

record season_stats = chart_stats +
  stat_games :: nat

text \<open>
  What is drawn on the court: the title, and the coordinates of the made and of the
  missed shots. The PNG that matplotlib renders from them is not modelled.
\<close>

record chart =
  title :: string
  made :: "(rat \<times> rat) list"
  missed :: "(rat \<times> rat) list"

definition coords :: "merged_row list \<Rightarrow> (rat \<times> rat) list" where
  "coords rows = map (\<lambda>m. (coordinate_x (play m), coordinate_y (play m))) rows"

definition count_makes :: "merged_row list \<Rightarrow> nat" where
  "count_makes rows = length (filter (\<lambda>m. scoring_play (play m)) rows)"

subsection \<open>\<open>/api/games/<team_id>\<close>\<close>

definition games_row :: "int \<Rightarrow> game_info \<Rightarrow> game_entry" where
  "games_row tid row =
     (let (opp, loc, team_score, opp_score) =
            (if gi_home_team_id row = tid
             then (gi_away_team_name row, ''vs'', gi_home_score row, gi_away_score row)
             else (gi_home_team_name row, ''@'', gi_away_score row, gi_home_score row));
          score_str =
            (case team_score of
               None \<Rightarrow> ''TBD''
             | Some t \<Rightarrow>
                 (case opp_score of
                    None \<Rightarrow> ''TBD''
                  | Some p \<Rightarrow> (if t > p then ''W'' else ''L'') @ '' '' @ str_int t @ ''-'' @ str_int p))
      in \<lparr> entry_game_id = gi_game_id row, date = strftime (gi_game_date row),
           opponent = opp, location = loc, score = score_str \<rparr>)"

definition get_games :: "play_event list \<Rightarrow> int \<Rightarrow> game_entry list" where
  "get_games pbp_df tid = map (games_row tid) (get_team_games pbp_df tid)"

subsection \<open>\<open>/api/players/<game_id>/<team_id>\<close>\<close>

definition players_row :: "merged_row list \<Rightarrow> nat \<times> string \<Rightarrow> py_error + player_entry" where
  "players_row team_shots ip =
     (let player_shot_data = filter (\<lambda>m. merged_name m = Some (snd ip)) team_shots;
          shots_count = length player_shot_data;
          makes_count = count_makes player_shot_data
      in case percentage_of makes_count shots_count of
           Inl e \<Rightarrow> Inl e
         | Inr pct \<Rightarrow>
             Inr \<lparr> player_id = fst ip, name = snd ip, shots = shots_count, makes = makes_count,
                   percentage = pct \<rparr>)"

definition get_players ::
  "box_row list \<Rightarrow> play_event list \<Rightarrow> int \<Rightarrow> int \<Rightarrow> py_error + player_entry list" where
  "get_players box_df pbp_df gid tid =
     (let (team_shots, team_players) = get_player_shots box_df pbp_df gid tid;
          total_shots = length team_shots;
          total_makes = count_makes team_shots
      in case percentage_of total_makes total_shots of
           Inl e \<Rightarrow> Inl e
         | Inr pct \<Rightarrow>
             (let team_view = \<lparr> player_id = 0, name = ''Team View'', shots = total_shots,
                                makes = total_makes, percentage = pct \<rparr>
              in case map_rows (players_row team_shots)
                        (enumerate 1 (sort (unique (dropna (map snd team_players))))) of
                   Inl e \<Rightarrow> Inl e
                 | Inr players \<Rightarrow> Inr (team_view # players)))"

subsection \<open>The games and the shots of one player\<close>

text \<open>
  The three player routes start alike: the box-score rows of the player for the team,
  the distinct games of these rows, and per game the shots of the team whose joined name
  is the player's.
\<close>

definition player_box_rows :: "box_row list \<Rightarrow> string option \<Rightarrow> int \<Rightarrow> box_row list" where
  "player_box_rows box_df pname tid =
     filter (\<lambda>b. eq_na (athlete_display_name b) pname \<and> box_team_id b = tid) box_df"

definition player_game_ids :: "box_row list \<Rightarrow> string option \<Rightarrow> int \<Rightarrow> int list" where
  "player_game_ids box_df pname tid = unique (map box_game_id (player_box_rows box_df pname tid))"

definition player_shots_in ::
  "box_row list \<Rightarrow> play_event list \<Rightarrow> int \<Rightarrow> string option \<Rightarrow> int \<Rightarrow> merged_row list" where
  "player_shots_in box_df pbp_df tid pname gid =
     filter (\<lambda>m. eq_na (merged_name m) pname) (fst (get_player_shots box_df pbp_df gid tid))"

subsection \<open>\<open>/api/search-player/<player_name>\<close>\<close>

definition search_step ::
  "box_row list \<Rightarrow> play_event list \<Rightarrow> int \<Rightarrow> string option \<Rightarrow> int \<Rightarrow> nat \<times> nat \<times> nat \<Rightarrow> nat \<times> nat \<times> nat" where
  "search_step box_df pbp_df tid pname gid acc =
     (case acc of (games_with_shots, n_shots, n_makes) \<Rightarrow>
        (let player_shots = player_shots_in box_df pbp_df tid pname gid
         in if length player_shots > 0
            then (games_with_shots + 1, n_shots + length player_shots, n_makes + count_makes player_shots)
            else (games_with_shots, n_shots, n_makes)))"

definition search_result ::
  "box_row list \<Rightarrow> play_event list \<Rightarrow> string option \<times> string option \<times> int \<Rightarrow> search_entry list" where
  "search_result box_df pbp_df p =
     (case p of (pname, tname, tid) \<Rightarrow>
        (case fold (search_step box_df pbp_df tid pname) (player_game_ids box_df pname tid) (0, 0, 0) of
           (games_with_shots, n_shots, n_makes) \<Rightarrow>
             if games_with_shots > 0
             then [\<lparr> player_name = pname,
                     team_name = (case tname of Some t \<Rightarrow> t | None \<Rightarrow> ''Unknown''),
                     se_team_id = tid, total_games = games_with_shots,
                     total_shots = n_shots, total_makes = n_makes \<rparr>]
             else []))"

definition name_matches :: "(string \<Rightarrow> string) \<Rightarrow> string list \<Rightarrow> string option \<Rightarrow> bool" where
  "name_matches py_lower search_parts cell =
     list_all (\<lambda>part. sublist part (py_lower (str_cell cell))) search_parts"

definition search_player ::
  "(string \<Rightarrow> string) \<Rightarrow> (string \<Rightarrow> string list) \<Rightarrow>
   box_row list \<Rightarrow> play_event list \<Rightarrow> string \<Rightarrow> search_entry list" where
  "search_player py_lower py_split box_df pbp_df query =
     (let players = unique (map (\<lambda>b. (athlete_display_name b, team_display_name b, box_team_id b)) box_df);
          search_parts = py_split (py_lower query);
          matching_players = filter (\<lambda>p. name_matches py_lower search_parts (fst p)) players
      in if length matching_players = 0 then []
         else concat (map (search_result box_df pbp_df) matching_players))"

subsection \<open>\<open>/api/player-games/<team_id>/<player_name>\<close>\<close>

text \<open>
  One pass of the loop over the player's games: \<open>None\<close> when the game is skipped
  (\<open>continue\<close>), the entry otherwise. The score is formatted once the team's score is
  present; \<open>int(opp_score)\<close> raises ValueError on a missing opponent score.
\<close>

definition player_games_row ::
  "box_row list \<Rightarrow> play_event list \<Rightarrow> int \<Rightarrow> string \<Rightarrow> int \<Rightarrow> py_error + player_game_entry option" where
  "player_games_row box_df pbp_df tid pname gid =
     (let player_shots = player_shots_in box_df pbp_df tid (Some pname) gid
      in if length player_shots = 0 then Inr None
         else
           (let game_data = filter (\<lambda>e. game_id e = gid) pbp_df
            in if length game_data = 0 then Inr None
               else
                 (let game_row = last game_data;
                      (opp, loc, team_score, opp_score) =
                        (if home_team_id game_row = tid
                         then (away_team_name game_row, ''vs'', home_score game_row, away_score game_row)
                         else (home_team_name game_row, ''@'', away_score game_row, home_score game_row));
                      entry = (\<lambda>score_str.
                        \<lparr> entry_game_id = gid, date = strftime (game_date game_row),
                          opponent = opp, location = loc, score = score_str,
                          pg_shots = length player_shots, pg_makes = count_makes player_shots \<rparr>)
                  in case team_score of
                       None \<Rightarrow> Inr (Some (entry ''TBD''))
                     | Some t \<Rightarrow>
                         (case opp_score of
                            None \<Rightarrow> Inl ValueError
                          | Some p \<Rightarrow>
                              Inr (Some (entry ((if t > p then ''W'' else ''L'') @ '' '' @
                                                str_int t @ ''-'' @ str_int p)))))))"

fun collect_rows :: "('k \<Rightarrow> py_error + 'a option) \<Rightarrow> 'k list \<Rightarrow> py_error + 'a list" where
  "collect_rows body [] = Inr []"
| "collect_rows body (k # ks) =
     (case body k of
        Inl e \<Rightarrow> Inl e
      | Inr None \<Rightarrow> collect_rows body ks
      | Inr (Some r) \<Rightarrow>
          (case collect_rows body ks of Inl e \<Rightarrow> Inl e | Inr rs \<Rightarrow> Inr (r # rs)))"

definition get_player_games ::
  "box_row list \<Rightarrow> play_event list \<Rightarrow> int \<Rightarrow> string \<Rightarrow> py_error + player_game_entry list" where
  "get_player_games box_df pbp_df tid pname =
     (case collect_rows (player_games_row box_df pbp_df tid pname)
             (player_game_ids box_df (Some pname) tid) of
        Inl e \<Rightarrow> Inl e
      | Inr results \<Rightarrow> Inr (sort_key date results))"

subsection \<open>\<open>/api/player-season-chart/<team_id>/<player_name>\<close>\<close>

text \<open>
  The short name computed for every combined shot, \<open>x.split(' ')[0][0]\<close>, raises
  IndexError on a name that is empty or starts with a space; every combined shot carries
  the requested name.
\<close>

definition get_player_season_chart ::
  "box_row list \<Rightarrow> play_event list \<Rightarrow> int \<Rightarrow> string \<Rightarrow> py_error + (chart \<times> season_stats) response" where
  "get_player_season_chart box_df pbp_df tid pname =
     (let gids = player_game_ids box_df (Some pname) tid;
          all_shots = filter (\<lambda>ps. length ps > 0)
                        (map (player_shots_in box_df pbp_df tid (Some pname)) gids)
      in if length all_shots = 0 then Inr (NotFound ''No shots found'')
         else
           (let combined_shots = concat all_shots
            in if pname = [] \<or> hd pname = CHR '' '' then Inl IndexError
               else
                 (let made_shots = filter (\<lambda>m. scoring_play (play m)) combined_shots;
                      missed_shots = filter (\<lambda>m. \<not> scoring_play (play m)) combined_shots;
                      ttl = pname @ '' - 2025-26 Season Shot Chart ('' @ str_nat (length gids) @ '' games)'';
                      makes_count = length made_shots;
                      n = length combined_shots
                  in case percentage_of makes_count n of
                       Inl e \<Rightarrow> Inl e
                     | Inr pct \<Rightarrow>
                         Inr (Ok (\<lparr> title = ttl, made = coords made_shots, missed = coords missed_shots \<rparr>,
                                  \<lparr> stat_makes = makes_count, stat_misses = n - makes_count,
                                    stat_total = n, stat_percentage = pct,
                                    stat_games = length gids \<rparr>)))))"

subsection \<open>\<open>/api/shot-chart/<game_id>/<team_id>/<player_name>\<close>\<close>

definition create_shot_chart :: "merged_row list \<Rightarrow> string \<Rightarrow> game_info \<Rightarrow> int \<Rightarrow> py_error + chart" where
  "create_shot_chart player_shots pname gi tid =
     (let made_shots = filter (\<lambda>m. scoring_play (play m)) player_shots;
          missed_shots = filter (\<lambda>m. \<not> scoring_play (play m)) player_shots;
          (opp, loc, team_score, opp_score) =
            (if gi_home_team_id gi = tid
             then (gi_away_team_name gi, ''vs'', gi_home_score gi, gi_away_score gi)
             else (gi_home_team_name gi, ''@'', gi_away_score gi, gi_home_score gi));
          img = (\<lambda>score_str.
            \<lparr> title = pname @ '' Shot Chart - '' @ loc @ '' '' @ opp @ '' ('' @
                      strftime (gi_game_date gi) @ '')'' @ score_str,
              made = coords made_shots, missed = coords missed_shots \<rparr>)
      in case team_score of
           None \<Rightarrow> Inr (img [])
         | Some t \<Rightarrow>
             (case opp_score of
                None \<Rightarrow> Inl ValueError
              | Some p \<Rightarrow>
                  Inr (img ('' ('' @ (if t > p then ''W'' else ''L'') @ '' '' @
                            str_int t @ ''-'' @ str_int p @ '')''))))"

text \<open>
  \<open>game_info[game_info['game_id'] == game_id].iloc[0]\<close> raises IndexError when the team
  has no such game; it is evaluated before the shots are looked at.
\<close>

definition get_shot_chart ::
  "box_row list \<Rightarrow> play_event list \<Rightarrow> int \<Rightarrow> int \<Rightarrow> string \<Rightarrow> py_error + (chart \<times> chart_stats) response" where
  "get_shot_chart box_df pbp_df gid tid pname =
     (let (team_shots, team_players) = get_player_shots box_df pbp_df gid tid
      in case filter (\<lambda>r. gi_game_id r = gid) (get_team_games pbp_df tid) of
           [] \<Rightarrow> Inl IndexError
         | gi # rest \<Rightarrow>
             (let player_shots =
                    (if pname = ''Team View'' then team_shots
                     else filter (\<lambda>m. merged_name m = Some pname) team_shots)
              in if length player_shots = 0 then Inr (NotFound ''No shots found'')
                 else
                   (case create_shot_chart player_shots pname gi tid of
                      Inl e \<Rightarrow> Inl e
                    | Inr img \<Rightarrow>
                        (let n_makes = count_makes player_shots;
                             n = length player_shots
                         in case percentage_of n_makes n of
                              Inl e \<Rightarrow> Inl e
                            | Inr pct \<Rightarrow>
                                Inr (Ok (img, \<lparr> stat_makes = n_makes, stat_misses = n - n_makes,
                                               stat_total = n, stat_percentage = pct \<rparr>))))))"

section \<open>Example tables\<close>

text \<open>
  A small season of Duke (team 150) against Arkansas (team 8): game 1001 at Duke, game
  1003 at Duke with no shot of the player followed here, game 1002 at Arkansas. The box
  score holds the player identifiers as integers, the play-by-play table as floats.
\<close>

definition pbp_row ::
  "int \<Rightarrow> date \<Rightarrow> bool \<Rightarrow> int option \<times> int option \<Rightarrow> id_cell \<Rightarrow> int option \<Rightarrow> string \<Rightarrow> bool \<Rightarrow> bool \<Rightarrow> play_event" where
  "pbp_row g d duke_home sc aid tid ty shooting scoring =
     \<lparr> game_id = g, game_date = d,
       home_team_id = (if duke_home then 150 else 8),
       away_team_id = (if duke_home then 8 else 150),
       home_team_name = (if duke_home then ''Duke'' else ''Arkansas''),
       away_team_name = (if duke_home then ''Arkansas'' else ''Duke''),
       home_score = fst sc, away_score = snd sc,
       athlete_id_1 = aid, team_id = tid, type_text = Some ty,
       shooting_play = shooting, scoring_play = scoring,
       coordinate_x = 0, coordinate_y = 0 \<rparr>"

definition bx :: "int \<Rightarrow> int \<Rightarrow> string \<Rightarrow> int \<Rightarrow> string \<Rightarrow> box_row" where
  "bx g aid nm tid tnm =
     \<lparr> box_game_id = g, athlete_id = IntId aid, athlete_display_name = Some nm,
       box_team_id = tid, team_display_name = Some tnm \<rparr>"

definition demo_box :: "box_row list" where
  "demo_box =
     [ bx 1001 1 ''Cameron Boozer'' 150 ''Duke'',
       bx 1001 2 ''Cam Boozer'' 150 ''Duke'',
       bx 1001 3 ''Cameron T. Boozer'' 8 ''Arkansas'',
       bx 1002 1 ''Cameron Boozer'' 150 ''Duke'',
       bx 1003 1 ''Cameron Boozer'' 150 ''Duke'' ]"

definition demo_pbp :: "play_event list" where
  "demo_pbp =
     [ pbp_row 1001 (2025, 11, 27) True (Some 0, Some 0) NaN None ''Jumpball'' False False,
       pbp_row 1001 (2025, 11, 27) True (Some 2, Some 0) (FloatId 1) (Some 150) ''JumpShot'' True True,
       pbp_row 1001 (2025, 11, 27) True (Some 3, Some 0) (FloatId 1) (Some 150) ''MadeFreeThrow'' True True,
       pbp_row 1001 (2025, 11, 27) True (Some 3, Some 0) (FloatId 3) (Some 8) ''LayUpShot'' True False,
       pbp_row 1001 (2025, 11, 27) True (Some 3, Some 0) (FloatId 2) (Some 150) ''JumpShot'' True False,
       pbp_row 1001 (2025, 11, 27) True (Some 80, Some 71) NaN None ''End Game'' False False,
       pbp_row 1003 (2025, 12, 10) True (Some 60, Some 61) NaN None ''End Game'' False False,
       pbp_row 1002 (2026, 1, 5) False (Some 0, Some 2) (FloatId 1) (Some 150) ''JumpShot'' True True,
       pbp_row 1002 (2026, 1, 5) False (Some 65, Some 70) NaN None ''End Game'' False False ]"

text \<open>The same season with a last row of game 1002 that has lost the home score.\<close>

definition pending_pbp :: "play_event list" where
  "pending_pbp =
     demo_pbp @ [ pbp_row 1002 (2026, 1, 5) False (None, Some 70) NaN None ''End Game'' False False ]"

text \<open>The same season with a shot of Duke in game 1001 by a player the box score does not list.\<close>

definition orphan_pbp :: "play_event list" where
  "orphan_pbp =
     demo_pbp @ [ pbp_row 1001 (2025, 11, 27) True (Some 80, Some 71) (FloatId 99) (Some 150) ''JumpShot'' True True ]"

text \<open>A game whose rows carry the home score and no away score.\<close>

definition halfscore_box :: "box_row list" where
  "halfscore_box = [ bx 2001 1 ''Cameron Boozer'' 150 ''Duke'' ]"

definition halfscore_pbp :: "play_event list" where
  "halfscore_pbp =
     [ pbp_row 2001 (2025, 11, 4) True (Some 2, None) (FloatId 1) (Some 150) ''JumpShot'' True True ]"

text \<open>
  A player whose name ends in the Latin-1 letter 0xE9 (e acute), with one shot, and a
  query for the name in capital letters, ending in 0xC9.
\<close>

definition jose_box :: "box_row list" where
  "jose_box = [ bx 3001 7 (''Jos'' @ [CHR 0xE9]) 150 ''Duke'' ]"

definition jose_pbp :: "play_event list" where
  "jose_pbp =
     [ pbp_row 3001 (2025, 11, 4) True (Some 2, Some 0) (FloatId 7) (Some 150) ''JumpShot'' True True ]"

definition jose_query :: string where
  "jose_query = ''JOS'' @ [CHR 0xC9]"

section \<open>Evaluation on the example tables\<close>

lemmas eval_defs =
  unique_def dropna_def last_valid_def eq_na_def lower_char_def lower_def is_space_def str_split_def
  str_cell_def str_contains_def digit_char_def str_nat.simps str_int_def pad2_def strftime_def
  py_truediv_def percentage_of_def group_last_def get_team_games_def team_rows_def game_group_def
  merge_names_def get_player_shots_def bit_length.simps float_of_int_def astype_float_def merge_key_def
  coords_def count_makes_def games_row_def get_games_def players_row_def get_players_def
  player_box_rows_def player_game_ids_def player_shots_in_def search_step_def search_result_def
  name_matches_def search_player_def player_games_row_def get_player_games_def
  get_player_season_chart_def create_shot_chart_def get_shot_chart_def
  pbp_row_def bx_def demo_box_def demo_pbp_def pending_pbp_def orphan_pbp_def
  halfscore_box_def halfscore_pbp_def jose_box_def jose_pbp_def jose_query_def
  latin1_lower_char_def latin1_lower_def latin1_is_space_def latin1_split_def Let_def List.map_filter_def sublist_code(3)

section \<open>Basic facts about the primitives\<close>

lemma set_unique: "set (unique xs) = set xs"
  by (simp add: unique_def)

lemma distinct_unique: "distinct (unique xs)"
  by (simp add: unique_def)

lemma merge_names_play:
  assumes "m \<in> set (merge_names plays names)"
  shows "play m \<in> set plays"
proof -
  from assms obtain e where e: "e \<in> set plays"
    and m: "m \<in> set (case filter (\<lambda>n. merge_key (fst n) = merge_key (athlete_id_1 e)) names of
                         [] \<Rightarrow> [\<lparr> play = e, merged_name = None \<rparr>]
                       | x # xs \<Rightarrow> map (\<lambda>n. \<lparr> play = e, merged_name = snd n \<rparr>) (x # xs))"
    by (auto simp: merge_names_def)
  from m have "play m = e"
    by (cases "filter (\<lambda>n. merge_key (fst n) = merge_key (athlete_id_1 e)) names") auto
  with e show ?thesis by simp
qed

text \<open>
  The substring test on lower-cased strings is containment up to case: some segment of
  the string lower-cases to the lower-cased pattern.
\<close>

lemma contains_iff:
  "sublist (lower pat) (lower s) \<longleftrightarrow> (\<exists>pre mid post. s = pre @ mid @ post \<and> lower mid = lower pat)"
proof
  assume "sublist (lower pat) (lower s)"
  then obtain ps ss where eq: "map lower_char s = ps @ (map lower_char pat @ ss)"
    unfolding sublist_def lower_def by blast
  from eq [unfolded map_eq_append_conv]
  obtain us vs where s: "s = us @ vs" and vs: "map lower_char pat @ ss = map lower_char vs"
    by blast
  from vs [unfolded append_eq_map_conv]
  obtain mid post where "vs = mid @ post" and "map lower_char pat = map lower_char mid"
    by blast
  with s have "s = us @ mid @ post \<and> lower mid = lower pat"
    by (simp add: lower_def)
  then show "\<exists>pre mid post. s = pre @ mid @ post \<and> lower mid = lower pat"
    by blast
next
  assume "\<exists>pre mid post. s = pre @ mid @ post \<and> lower mid = lower pat"
  then obtain pre mid post where "s = pre @ mid @ post" and "lower mid = lower pat"
    by blast
  then have "lower s = lower pre @ lower pat @ lower post"
    by (simp add: lower_def)
  then show "sublist (lower pat) (lower s)"
    unfolding sublist_def by blast
qed

lemma no_free_throw:
  assumes c: "\<not> str_contains ''FreeThrow'' x"
  shows "\<not> (\<exists>t pre mid post. x = Some t \<and> t = pre @ mid @ post \<and> lower mid = lower ''FreeThrow'')"
proof (cases x)
  case None
  then show ?thesis by simp
next
  case (Some t)
  with c have "\<not> sublist (lower ''FreeThrow'') (lower t)"
    by (simp add: str_contains_def)
  then have "\<not> (\<exists>pre mid post. t = pre @ mid @ post \<and> lower mid = lower ''FreeThrow'')"
    using contains_iff [of "''FreeThrow''" t] by blast
  with Some show ?thesis by blast
qed

section \<open>Shot extraction: the rows of the shot set\<close>

text \<open>
  C5. Every row of the shot set that \<open>get_player_shots\<close> returns for a game and a team
  is a play of that game whose team identifier is the queried team, whose shooting-play
  flag is set, and whose event-type label, when it has one, contains no segment that
  reads "FreeThrow" up to case.
\<close>

theorem get_player_shots_rows:
  assumes "m \<in> set (fst (get_player_shots box_df pbp_df gid tid))"
  shows "game_id (play m) = gid \<and> team_id (play m) = Some tid \<and> shooting_play (play m) \<and>
         \<not> (\<exists>t pre mid post. type_text (play m) = Some t \<and> t = pre @ mid @ post \<and>
                              lower mid = lower ''FreeThrow'')"
proof -
  from assms have a: "m \<in> set (merge_names (filter (\<lambda>e. game_id e = gid) pbp_df)
        (map (\<lambda>n. (astype_float (fst n), snd n))
          (unique (map (\<lambda>b. (athlete_id b, athlete_display_name b)) (filter (\<lambda>b. box_game_id b = gid) box_df)))))"
    and b: "team_id (play m) = Some tid" "shooting_play (play m)"
    and c: "\<not> str_contains ''FreeThrow'' (type_text (play m))"
    by (simp_all add: get_player_shots_def Let_def)
  from merge_names_play [OF a] have "game_id (play m) = gid"
    by simp
  with b no_free_throw [OF c] show ?thesis
    by blast
qed

theorem get_player_shots_rows_witness:
  "hd (fst (get_player_shots demo_box demo_pbp 1001 150))
     \<in> set (fst (get_player_shots demo_box demo_pbp 1001 150)) \<and>
   game_id (play (hd (fst (get_player_shots demo_box demo_pbp 1001 150)))) = 1001 \<and>
   team_id (play (hd (fst (get_player_shots demo_box demo_pbp 1001 150)))) = Some 150 \<and>
   shooting_play (play (hd (fst (get_player_shots demo_box demo_pbp 1001 150))))"
proof -
  have "fst (get_player_shots demo_box demo_pbp 1001 150) \<noteq> []"
    by (simp add: eval_defs)
  then have h: "hd (fst (get_player_shots demo_box demo_pbp 1001 150))
             \<in> set (fst (get_player_shots demo_box demo_pbp 1001 150))"
    by simp
  from get_player_shots_rows [OF h] h show ?thesis
    by blast
qed

section \<open>Counting shots by player\<close>

lemma length_filter_disj:
  assumes "\<And>x. x \<in> set xs \<Longrightarrow> \<not> (P x \<and> Q x)"
  shows "length (filter P xs) + length (filter Q xs) = length (filter (\<lambda>x. P x \<or> Q x) xs)"
  using assms by (induction xs) auto

lemma count_by_name:
  assumes "distinct ns"
  shows "sum_list (map (\<lambda>n. length (filter (\<lambda>m. f m = Some n) rows)) ns) =
         length (filter (\<lambda>m. \<exists>n\<in>set ns. f m = Some n) rows)"
  using assms
proof (induction ns)
  case Nil
  then show ?case by simp
next
  case (Cons n ns)
  then have d: "\<And>m. m \<in> set rows \<Longrightarrow> \<not> (f m = Some n \<and> (\<exists>k\<in>set ns. f m = Some k))"
    by auto
  have "sum_list (map (\<lambda>n. length (filter (\<lambda>m. f m = Some n) rows)) (n # ns)) =
        length (filter (\<lambda>m. f m = Some n) rows) + length (filter (\<lambda>m. \<exists>k\<in>set ns. f m = Some k) rows)"
    using Cons by simp
  also have "\<dots> = length (filter (\<lambda>m. f m = Some n \<or> (\<exists>k\<in>set ns. f m = Some k)) rows)"
    by (rule length_filter_disj) (use d in blast)
  also have "\<dots> = length (filter (\<lambda>m. \<exists>k\<in>set (n # ns). f m = Some k) rows)"
    by (rule arg_cong [where f = length], rule filter_cong) auto
  finally show ?case .
qed

lemma length_filter_eq_iff:
  "length (filter P xs) = length xs \<longleftrightarrow> (\<forall>x\<in>set xs. P x)"
proof -
  have "length (filter P xs) + length (filter (\<lambda>x. \<not> P x) xs) = length xs"
    by (rule sum_length_filter_compl)
  then have "length (filter P xs) = length xs \<longleftrightarrow> filter (\<lambda>x. \<not> P x) xs = []"
    by auto
  then show ?thesis
    by (simp add: filter_empty_conv)
qed

lemma map_snd_enumerate_fun:
  "map (\<lambda>x. g (snd x)) (enumerate k xs) = map g xs"
proof -
  have "map (\<lambda>x. g (snd x)) (enumerate k xs) = map g (map snd (enumerate k xs))"
    by (simp only: map_map comp_def)
  then show ?thesis
    by (simp only: map_snd_enumerate)
qed

lemma percentage_of_ok:
  "percentage_of m n = Inr (if n = 0 then PyInt 0 else PyFloat (FMul (TrueDiv m n) 100))"
  by (simp add: percentage_of_def py_truediv_def)

lemma map_rows_ok:
  assumes "\<And>k. body k = Inr (g k)"
  shows "map_rows body ks = Inr (map g ks)"
  by (induction ks) (simp_all add: assms)

lemma players_row_ok:
  "players_row ts ip =
     Inr \<lparr> player_id = fst ip, name = snd ip,
           shots = length (filter (\<lambda>m. merged_name m = Some (snd ip)) ts),
           makes = count_makes (filter (\<lambda>m. merged_name m = Some (snd ip)) ts),
           percentage =
             (if length (filter (\<lambda>m. merged_name m = Some (snd ip)) ts) = 0 then PyInt 0
              else PyFloat (FMul (TrueDiv (count_makes (filter (\<lambda>m. merged_name m = Some (snd ip)) ts))
                                   (length (filter (\<lambda>m. merged_name m = Some (snd ip)) ts))) 100)) \<rparr>"
  by (simp add: players_row_def Let_def percentage_of_ok)

lemma get_players_unfold:
  "get_players box_df pbp_df gid tid =
     Inr (\<lparr> player_id = 0, name = ''Team View'',
            shots = length (fst (get_player_shots box_df pbp_df gid tid)),
            makes = count_makes (fst (get_player_shots box_df pbp_df gid tid)),
            percentage =
              (if length (fst (get_player_shots box_df pbp_df gid tid)) = 0 then PyInt 0
               else PyFloat (FMul (TrueDiv (count_makes (fst (get_player_shots box_df pbp_df gid tid)))
                                    (length (fst (get_player_shots box_df pbp_df gid tid)))) 100)) \<rparr> #
          map (\<lambda>ip. projr (players_row (fst (get_player_shots box_df pbp_df gid tid)) ip))
            (enumerate 1 (sort (unique (dropna (map snd (snd (get_player_shots box_df pbp_df gid tid))))))))"
proof -
  have "map_rows (players_row ts) xs = Inr (map (\<lambda>ip. projr (players_row ts ip)) xs)" for ts xs
    by (rule map_rows_ok) (simp add: players_row_ok)
  then show ?thesis
    by (simp add: get_players_def Let_def case_prod_beta percentage_of_ok)
qed

lemma players_row_sel:
  "name (projr (players_row ts ip)) = snd ip"
  "shots (projr (players_row ts ip)) = length (filter (\<lambda>m. merged_name m = Some (snd ip)) ts)"
  "makes (projr (players_row ts ip)) =
     length (filter (\<lambda>m. merged_name m = Some (snd ip)) (filter (\<lambda>m. scoring_play (play m)) ts))"
  "percentage (projr (players_row ts ip)) =
     (if shots (projr (players_row ts ip)) = 0 then PyInt 0
      else PyFloat (FMul (TrueDiv (makes (projr (players_row ts ip))) (shots (projr (players_row ts ip)))) 100))"
  by (simp_all add: players_row_ok count_makes_def conj_commute)


section \<open>Facts about the game listing\<close>

lemma last_valid_append_None: "last_valid (xs @ [None]) = last_valid xs"
  by (simp add: last_valid_def)

lemma last_valid_append_Some: "last_valid (xs @ [Some v]) = Some v"
  by (cases "filter (\<lambda>x. x \<noteq> None) xs") (simp_all add: last_valid_def)

lemma last_valid_column:
  "(last_valid (map f rows) = None \<and> (\<forall>e\<in>set rows. f e = None)) \<or>
   (\<exists>pre e post. rows = pre @ e # post \<and> f e \<noteq> None \<and> last_valid (map f rows) = f e \<and>
                   (\<forall>e'\<in>set post. f e' = None))"
proof (induction rows rule: rev_induct)
  case Nil
  show ?case by (simp add: last_valid_def)
next
  case (snoc x rows)
  show ?case
  proof (cases "f x")
    case None
    then have lv: "last_valid (map f (rows @ [x])) = last_valid (map f rows)"
      by (simp add: last_valid_append_None)
    from snoc show ?thesis
    proof
      assume "last_valid (map f rows) = None \<and> (\<forall>e\<in>set rows. f e = None)"
      with None lv show ?thesis by simp
    next
      assume "\<exists>pre e post. rows = pre @ e # post \<and> f e \<noteq> None \<and> last_valid (map f rows) = f e \<and>
                   (\<forall>e'\<in>set post. f e' = None)"
      then obtain pre e post where "rows = pre @ e # post" "f e \<noteq> None"
        "last_valid (map f rows) = f e" "\<forall>e'\<in>set post. f e' = None"
        by blast
      with None lv have "rows @ [x] = pre @ e # (post @ [x]) \<and> f e \<noteq> None \<and>
          last_valid (map f (rows @ [x])) = f e \<and> (\<forall>e'\<in>set (post @ [x]). f e' = None)"
        by simp
      then show ?thesis by blast
    qed
  next
    case (Some v)
    then have "rows @ [x] = rows @ x # [] \<and> f x \<noteq> None \<and>
        last_valid (map f (rows @ [x])) = f x \<and> (\<forall>e'\<in>set []. f e' = None)"
      by (simp add: last_valid_append_Some)
    then show ?thesis by blast
  qed
qed

lemma last_valid_last:
  assumes "rows \<noteq> []" and "f (last rows) \<noteq> None"
  shows "last_valid (map f rows) = f (last rows)"
proof -
  from assms(1) obtain ys x where r: "rows = ys @ [x]"
    by (meson rev_exhaust)
  with assms(2) obtain v where "f x = Some v" by auto
  with r show ?thesis by (simp add: last_valid_append_Some)
qed

lemma gi_game_id_group_last: "gi_game_id (group_last g rows) = g"
  by (simp add: group_last_def)


lemma get_team_games_unfold:
  "get_team_games pbp_df tid =
     sort_key gi_game_date
       (map (\<lambda>g. group_last g (game_group pbp_df tid g))
            (sort (unique (map game_id (team_rows pbp_df tid)))))"
  by (simp add: get_team_games_def Let_def team_rows_def game_group_def)

lemma get_team_games_ids:
  "distinct (map gi_game_id (get_team_games pbp_df tid))"
  "set (map gi_game_id (get_team_games pbp_df tid)) = set (map game_id (team_rows pbp_df tid))"
proof -
  let ?keys = "sort (unique (map game_id (team_rows pbp_df tid)))"
  let ?gs = "map (\<lambda>g. group_last g (game_group pbp_df tid g)) ?keys"
  have ids: "map gi_game_id ?gs = ?keys"
    by (simp add: comp_def gi_game_id_group_last)
  have dk: "distinct ?keys"
    by (simp add: distinct_unique)
  from ids dk have "distinct (map gi_game_id ?gs)" by simp
  then have "distinct ?gs \<and> inj_on gi_game_id (set ?gs)"
    by (simp only: distinct_map)
  then have "distinct (sort_key gi_game_date ?gs) \<and> inj_on gi_game_id (set (sort_key gi_game_date ?gs))"
    by simp
  then have "distinct (map gi_game_id (sort_key gi_game_date ?gs))"
    by (simp only: distinct_map)
  then show "distinct (map gi_game_id (get_team_games pbp_df tid))"
    by (simp only: get_team_games_unfold)
  have "set (map gi_game_id (sort_key gi_game_date ?gs)) = set (map gi_game_id ?gs)"
    by (simp only: set_map set_sort)
  also have "\<dots> = set ?keys" by (simp only: ids)
  also have "\<dots> = set (map game_id (team_rows pbp_df tid))"
    by (simp add: set_unique)
  finally show "set (map gi_game_id (get_team_games pbp_df tid)) = set (map game_id (team_rows pbp_df tid))"
    by (simp only: get_team_games_unfold)
qed

lemma get_team_games_row:
  assumes "r \<in> set (get_team_games pbp_df tid)"
  shows "r = group_last (gi_game_id r) (game_group pbp_df tid (gi_game_id r))"
    and "game_group pbp_df tid (gi_game_id r) \<noteq> []"
proof -
  from assms obtain g where g: "g \<in> set (map game_id (team_rows pbp_df tid))"
    and r: "r = group_last g (game_group pbp_df tid g)"
    by (auto simp: get_team_games_unfold set_unique)
  from r have "gi_game_id r = g" by (simp add: gi_game_id_group_last)
  with r show "r = group_last (gi_game_id r) (game_group pbp_df tid (gi_game_id r))"
    by simp
  from g \<open>gi_game_id r = g\<close> show "game_group pbp_df tid (gi_game_id r) \<noteq> []"
    by (auto simp: filter_empty_conv game_group_def)
qed

lemma get_team_games_sorted: "sorted (map gi_game_date (get_team_games pbp_df tid))"
  by (simp only: get_team_games_unfold sorted_sort_key)


section \<open>Game listing: one row per game of the team\<close>

text \<open>
  C4, as amended. For every team, \<open>get_team_games\<close> returns one row per distinct game
  in which the team is the home or the away side, sorted non-decreasing by game date,
  and every returned game has the team as its home or its away side. Date, names and
  team identifiers are those of the last row of the game's group. Each final score is the
  score of the last row of the group that carries one for that side (and is absent when
  no row carries one); it is the last row's score whenever the last row carries it.
\<close>

theorem get_team_games_listing:
  "distinct (map gi_game_id (get_team_games pbp_df tid)) \<and>
   set (map gi_game_id (get_team_games pbp_df tid)) = set (map game_id (team_rows pbp_df tid)) \<and>
   sorted (map gi_game_date (get_team_games pbp_df tid)) \<and>
   (\<forall>r \<in> set (get_team_games pbp_df tid).
      game_group pbp_df tid (gi_game_id r) \<noteq> [] \<and>
      (gi_home_team_id r = tid \<or> gi_away_team_id r = tid) \<and>
      gi_game_date r = game_date (last (game_group pbp_df tid (gi_game_id r))) \<and>
      gi_home_team_id r = home_team_id (last (game_group pbp_df tid (gi_game_id r))) \<and>
      gi_away_team_id r = away_team_id (last (game_group pbp_df tid (gi_game_id r))) \<and>
      gi_home_team_name r = home_team_name (last (game_group pbp_df tid (gi_game_id r))) \<and>
      gi_away_team_name r = away_team_name (last (game_group pbp_df tid (gi_game_id r))) \<and>
      (home_score (last (game_group pbp_df tid (gi_game_id r))) \<noteq> None \<longrightarrow>
         gi_home_score r = home_score (last (game_group pbp_df tid (gi_game_id r)))) \<and>
      (away_score (last (game_group pbp_df tid (gi_game_id r))) \<noteq> None \<longrightarrow>
         gi_away_score r = away_score (last (game_group pbp_df tid (gi_game_id r)))) \<and>
      ((gi_home_score r = None \<and> (\<forall>e \<in> set (game_group pbp_df tid (gi_game_id r)). home_score e = None)) \<or>
       (\<exists>pre e post. game_group pbp_df tid (gi_game_id r) = pre @ e # post \<and> home_score e \<noteq> None \<and>
            gi_home_score r = home_score e \<and> (\<forall>e' \<in> set post. home_score e' = None))) \<and>
      ((gi_away_score r = None \<and> (\<forall>e \<in> set (game_group pbp_df tid (gi_game_id r)). away_score e = None)) \<or>
       (\<exists>pre e post. game_group pbp_df tid (gi_game_id r) = pre @ e # post \<and> away_score e \<noteq> None \<and>
            gi_away_score r = away_score e \<and> (\<forall>e' \<in> set post. away_score e' = None))))"
proof -
  have rows: "game_group pbp_df tid (gi_game_id r) \<noteq> [] \<and>
      (gi_home_team_id r = tid \<or> gi_away_team_id r = tid) \<and>
      gi_game_date r = game_date (last (game_group pbp_df tid (gi_game_id r))) \<and>
      gi_home_team_id r = home_team_id (last (game_group pbp_df tid (gi_game_id r))) \<and>
      gi_away_team_id r = away_team_id (last (game_group pbp_df tid (gi_game_id r))) \<and>
      gi_home_team_name r = home_team_name (last (game_group pbp_df tid (gi_game_id r))) \<and>
      gi_away_team_name r = away_team_name (last (game_group pbp_df tid (gi_game_id r))) \<and>
      (home_score (last (game_group pbp_df tid (gi_game_id r))) \<noteq> None \<longrightarrow>
         gi_home_score r = home_score (last (game_group pbp_df tid (gi_game_id r)))) \<and>
      (away_score (last (game_group pbp_df tid (gi_game_id r))) \<noteq> None \<longrightarrow>
         gi_away_score r = away_score (last (game_group pbp_df tid (gi_game_id r)))) \<and>
      ((gi_home_score r = None \<and> (\<forall>e \<in> set (game_group pbp_df tid (gi_game_id r)). home_score e = None)) \<or>
       (\<exists>pre e post. game_group pbp_df tid (gi_game_id r) = pre @ e # post \<and> home_score e \<noteq> None \<and>
            gi_home_score r = home_score e \<and> (\<forall>e' \<in> set post. home_score e' = None))) \<and>
      ((gi_away_score r = None \<and> (\<forall>e \<in> set (game_group pbp_df tid (gi_game_id r)). away_score e = None)) \<or>
       (\<exists>pre e post. game_group pbp_df tid (gi_game_id r) = pre @ e # post \<and> away_score e \<noteq> None \<and>
            gi_away_score r = away_score e \<and> (\<forall>e' \<in> set post. away_score e' = None)))"
    if r: "r \<in> set (get_team_games pbp_df tid)" for r
  proof -
    define grp where "grp = game_group pbp_df tid (gi_game_id r)"
    from get_team_games_row [OF r] have req: "r = group_last (gi_game_id r) grp" and ne: "grp \<noteq> []"
      by (simp_all add: grp_def)
    from ne have "last grp \<in> set grp" by simp
    then have side: "home_team_id (last grp) = tid \<or> away_team_id (last grp) = tid"
      by (auto simp: grp_def game_group_def team_rows_def)
    have sel: "gi_game_date r = last (map game_date grp)"
      "gi_home_team_id r = last (map home_team_id grp)"
      "gi_away_team_id r = last (map away_team_id grp)"
      "gi_home_team_name r = last (map home_team_name grp)"
      "gi_away_team_name r = last (map away_team_name grp)"
      "gi_home_score r = last_valid (map home_score grp)"
      "gi_away_score r = last_valid (map away_score grp)"
      by (subst req, simp add: group_last_def)+
    from ne have lm: "\<And>f. last (map f grp) = f (last grp)"
      by (simp add: last_map)
    have c1: "gi_game_date r = game_date (last grp)"
      "gi_home_team_id r = home_team_id (last grp)"
      "gi_away_team_id r = away_team_id (last grp)"
      "gi_home_team_name r = home_team_name (last grp)"
      "gi_away_team_name r = away_team_name (last grp)"
      by (simp_all only: sel lm)
    have c2: "home_score (last grp) \<noteq> None \<longrightarrow> gi_home_score r = home_score (last grp)"
      "away_score (last grp) \<noteq> None \<longrightarrow> gi_away_score r = away_score (last grp)"
      using ne by (simp_all add: sel last_valid_last)
    have c3: "(gi_home_score r = None \<and> (\<forall>e \<in> set grp. home_score e = None)) \<or>
       (\<exists>pre e post. grp = pre @ e # post \<and> home_score e \<noteq> None \<and>
            gi_home_score r = home_score e \<and> (\<forall>e' \<in> set post. home_score e' = None))"
      unfolding sel by (rule last_valid_column)
    have c4: "(gi_away_score r = None \<and> (\<forall>e \<in> set grp. away_score e = None)) \<or>
       (\<exists>pre e post. grp = pre @ e # post \<and> away_score e \<noteq> None \<and>
            gi_away_score r = away_score e \<and> (\<forall>e' \<in> set post. away_score e' = None))"
      unfolding sel by (rule last_valid_column)
    from side c1 have c0: "gi_home_team_id r = tid \<or> gi_away_team_id r = tid"
      by simp
    from ne c0 c1 c2 c3 c4 show ?thesis
      unfolding grp_def by (intro conjI)
  qed
  show ?thesis
    by (rule conjI [OF get_team_games_ids(1) conjI [OF get_team_games_ids(2)
          conjI [OF get_team_games_sorted ballI [OF rows]]]])
qed

theorem get_team_games_listing_witness:
  "hd (get_team_games demo_pbp 150) \<in> set (get_team_games demo_pbp 150) \<and>
   distinct (map gi_game_id (get_team_games demo_pbp 150)) \<and>
   sorted (map gi_game_date (get_team_games demo_pbp 150)) \<and>
   gi_home_team_id (hd (get_team_games demo_pbp 150)) = 150 \<and>
   home_score (last (game_group demo_pbp 150 1001)) \<noteq> None \<and>
   gi_home_score (hd (get_team_games demo_pbp 150)) = home_score (last (game_group demo_pbp 150 1001)) \<and>
   gi_game_date (hd (get_team_games demo_pbp 150)) = game_date (last (game_group demo_pbp 150 1001))"
proof -
  have v: "get_team_games demo_pbp 150 =
    [\<lparr>gi_game_id = 1001, gi_game_date = (2025, 11, 27), gi_home_team_name = ''Duke'',
       gi_away_team_name = ''Arkansas'', gi_home_score = Some 80, gi_away_score = Some 71,
       gi_home_team_id = 150, gi_away_team_id = 8\<rparr>,
     \<lparr>gi_game_id = 1003, gi_game_date = (2025, 12, 10), gi_home_team_name = ''Duke'',
       gi_away_team_name = ''Arkansas'', gi_home_score = Some 60, gi_away_score = Some 61,
       gi_home_team_id = 150, gi_away_team_id = 8\<rparr>,
     \<lparr>gi_game_id = 1002, gi_game_date = (2026, 1, 5), gi_home_team_name = ''Arkansas'',
       gi_away_team_name = ''Duke'', gi_home_score = Some 65, gi_away_score = Some 70,
       gi_home_team_id = 8, gi_away_team_id = 150\<rparr>]"
    by (simp add: eval_defs)
  have h: "hd (get_team_games demo_pbp 150) \<in> set (get_team_games demo_pbp 150)"
    by (simp add: v)
  have i: "gi_game_id (hd (get_team_games demo_pbp 150)) = 1001"
    "gi_home_team_id (hd (get_team_games demo_pbp 150)) = 150"
    by (simp_all add: v)
  have s: "home_score (last (game_group demo_pbp 150 1001)) \<noteq> None"
    by (simp add: eval_defs)
  note t = get_team_games_listing [of demo_pbp 150]
  from t h have "home_score (last (game_group demo_pbp 150 (gi_game_id (hd (get_team_games demo_pbp 150))))) \<noteq> None \<longrightarrow>
      gi_home_score (hd (get_team_games demo_pbp 150)) =
        home_score (last (game_group demo_pbp 150 (gi_game_id (hd (get_team_games demo_pbp 150)))))"
    by blast
  with s have a: "gi_home_score (hd (get_team_games demo_pbp 150)) = home_score (last (game_group demo_pbp 150 1001))"
    by (simp add: i)
  from t h have "gi_game_date (hd (get_team_games demo_pbp 150)) =
      game_date (last (game_group demo_pbp 150 (gi_game_id (hd (get_team_games demo_pbp 150)))))"
    by blast
  then have b: "gi_game_date (hd (get_team_games demo_pbp 150)) = game_date (last (game_group demo_pbp 150 1001))"
    by (simp only: i)
  from t have c: "distinct (map gi_game_id (get_team_games demo_pbp 150))"
    "sorted (map gi_game_date (get_team_games demo_pbp 150))"
    by blast+
  from h c i(2) s a b show ?thesis
    by (intro conjI)
qed

text \<open>
  The claim as stated fails where the last row of a game has lost a score that an earlier
  row carries: the listed home score of game 1002 is 65, and the last row has none.
\<close>

theorem get_team_games_last_row_counterexample:
  "gi_game_id (get_team_games pending_pbp 150 ! 2) = 1002 \<and>
   gi_home_score (get_team_games pending_pbp 150 ! 2) = Some 65 \<and>
   home_score (last (game_group pending_pbp 150 1002)) = None \<and>
   gi_home_score (get_team_games pending_pbp 150 ! 2) \<noteq> home_score (last (game_group pending_pbp 150 1002))"
  by (simp add: eval_defs)

section \<open>Player aggregation: Team View and the listed players\<close>

text \<open>
  C3, as amended. In the list \<open>get_players\<close> returns for a game and a team, the first
  entry is Team View. The shot counts of the listed players sum to at most the shot count
  of Team View, and the make counts to at most its make count. The shot sums are equal
  exactly when every row of the shot set of \<open>get_player_shots\<close> carries the name of a
  listed player, and the make sums exactly when every row of a made shot does.
\<close>

theorem team_view_vs_players:
  assumes "get_players box_df pbp_df gid tid = Inr (tv # ps)"
  shows "name tv = ''Team View'' \<and>
         sum_list (map shots ps) \<le> shots tv \<and>
         sum_list (map makes ps) \<le> makes tv \<and>
         (sum_list (map shots ps) = shots tv \<longleftrightarrow>
            (\<forall>m \<in> set (fst (get_player_shots box_df pbp_df gid tid)).
               \<exists>p \<in> set ps. merged_name m = Some (name p))) \<and>
         (sum_list (map makes ps) = makes tv \<longleftrightarrow>
            (\<forall>m \<in> set (fst (get_player_shots box_df pbp_df gid tid)).
               scoring_play (play m) \<longrightarrow> (\<exists>p \<in> set ps. merged_name m = Some (name p))))"
proof -
  define ts where "ts = fst (get_player_shots box_df pbp_df gid tid)"
  define roster where
    "roster = sort (unique (dropna (map snd (snd (get_player_shots box_df pbp_df gid tid)))))"
  define sc where "sc = filter (\<lambda>m. scoring_play (play m)) ts"
  from assms have tv: "name tv = ''Team View''" "shots tv = length ts" "makes tv = length sc"
    and ps: "ps = map (\<lambda>ip. projr (players_row ts ip)) (enumerate 1 roster)"
    unfolding get_players_unfold ts_def roster_def sc_def count_makes_def by auto
  have d: "distinct roster"
    by (simp add: roster_def distinct_unique)
  have names: "name ` set ps = set roster"
  proof -
    have "map name ps = map snd (enumerate 1 roster)"
      by (simp add: ps players_row_sel comp_def del: map_snd_enumerate)
    then have "map name ps = roster" by simp
    then have "set (map name ps) = set roster" by simp
    then show ?thesis by simp
  qed
  have "map shots ps = map (\<lambda>n. length (filter (\<lambda>m. merged_name m = Some n) ts)) roster"
    using map_snd_enumerate_fun [of "\<lambda>n. length (filter (\<lambda>m. merged_name m = Some n) ts)" 1 roster]
    by (simp add: ps players_row_sel comp_def)
  then have s1: "sum_list (map shots ps) = length (filter (\<lambda>m. \<exists>n\<in>set roster. merged_name m = Some n) ts)"
    using count_by_name [OF d, of merged_name ts] by simp
  have "map makes ps = map (\<lambda>n. length (filter (\<lambda>m. merged_name m = Some n) sc)) roster"
    using map_snd_enumerate_fun [of "\<lambda>n. length (filter (\<lambda>m. merged_name m = Some n) sc)" 1 roster]
    by (simp add: ps players_row_sel comp_def sc_def)
  then have s2: "sum_list (map makes ps) = length (filter (\<lambda>m. \<exists>n\<in>set roster. merged_name m = Some n) sc)"
    using count_by_name [OF d, of merged_name sc] by simp
  have ex: "\<And>m. (\<exists>n\<in>set roster. merged_name m = Some n) \<longleftrightarrow> (\<exists>p\<in>set ps. merged_name m = Some (name p))"
    using names by (metis (no_types, lifting) image_iff)
  have le1: "sum_list (map shots ps) \<le> shots tv"
    by (simp add: s1 tv)
  have le2: "sum_list (map makes ps) \<le> makes tv"
    by (simp add: s2 tv)
  have eq1: "sum_list (map shots ps) = shots tv \<longleftrightarrow>
               (\<forall>m\<in>set ts. \<exists>p\<in>set ps. merged_name m = Some (name p))"
    unfolding s1 tv length_filter_eq_iff ex ..
  have eq2: "sum_list (map makes ps) = makes tv \<longleftrightarrow>
               (\<forall>m\<in>set ts. scoring_play (play m) \<longrightarrow> (\<exists>p\<in>set ps. merged_name m = Some (name p)))"
    unfolding s2 tv length_filter_eq_iff ex by (auto simp: sc_def)
  from tv(1) le1 le2 eq1 eq2 show ?thesis
    unfolding ts_def sc_def by blast
qed

theorem team_view_vs_players_witness:
  "get_players demo_box demo_pbp 1001 150 =
     Inr (hd (projr (get_players demo_box demo_pbp 1001 150)) #
          tl (projr (get_players demo_box demo_pbp 1001 150))) \<and>
   name (hd (projr (get_players demo_box demo_pbp 1001 150))) = ''Team View'' \<and>
   shots (hd (projr (get_players demo_box demo_pbp 1001 150))) = 2 \<and>
   sum_list (map shots (tl (projr (get_players demo_box demo_pbp 1001 150)))) = 2 \<and>
   sum_list (map makes (tl (projr (get_players demo_box demo_pbp 1001 150))))
     \<le> makes (hd (projr (get_players demo_box demo_pbp 1001 150)))"
proof -
  have v: "get_players demo_box demo_pbp 1001 150 =
    Inr [\<lparr>player_id = 0, name = ''Team View'', shots = 2, makes = 1,
           percentage = PyFloat (FMul (TrueDiv 1 2) 100)\<rparr>,
         \<lparr>player_id = 1, name = ''Cam Boozer'', shots = 1, makes = 0,
           percentage = PyFloat (FMul (TrueDiv 0 1) 100)\<rparr>,
         \<lparr>player_id = 2, name = ''Cameron Boozer'', shots = 1, makes = 1,
           percentage = PyFloat (FMul (TrueDiv 1 1) 100)\<rparr>]"
    by (simp add: eval_defs)
  have h: "get_players demo_box demo_pbp 1001 150 =
     Inr (hd (projr (get_players demo_box demo_pbp 1001 150)) #
          tl (projr (get_players demo_box demo_pbp 1001 150)))"
    by (simp add: v)
  have n: "shots (hd (projr (get_players demo_box demo_pbp 1001 150))) = 2"
    "sum_list (map shots (tl (projr (get_players demo_box demo_pbp 1001 150)))) = 2"
    by (simp_all add: v)
  from team_view_vs_players [OF h] h n show ?thesis
    by blast
qed

text \<open>
  The claim as stated fails when the team has a shot by a player the box score does not
  list: Team View counts three shots, the listed players two.
\<close>

theorem team_view_sum_counterexample:
  "get_players demo_box orphan_pbp 1001 150 =
     Inr (hd (projr (get_players demo_box orphan_pbp 1001 150)) #
          tl (projr (get_players demo_box orphan_pbp 1001 150))) \<and>
   name (hd (projr (get_players demo_box orphan_pbp 1001 150))) = ''Team View'' \<and>
   shots (hd (projr (get_players demo_box orphan_pbp 1001 150))) = 3 \<and>
   sum_list (map shots (tl (projr (get_players demo_box orphan_pbp 1001 150)))) = 2 \<and>
   shots (hd (projr (get_players demo_box orphan_pbp 1001 150)))
     \<noteq> sum_list (map shots (tl (projr (get_players demo_box orphan_pbp 1001 150))))"
  by (simp add: eval_defs)

section \<open>Facts about the search and the charts\<close>

lemma split_at_tokens:
  assumes "\<forall>c\<in>set cur. \<not> sp c" and "t \<in> set (split_at sp cur s)"
  shows "t \<noteq> [] \<and> (\<forall>c\<in>set t. \<not> sp c)"
  using assms
proof (induction s arbitrary: cur)
  case Nil
  then show ?case by (auto split: if_splits)
next
  case (Cons c s)
  show ?case
  proof (cases "sp c")
    case True
    with Cons.prems(2) have "(cur \<noteq> [] \<and> t = cur) \<or> t \<in> set (split_at sp [] s)"
      by (auto split: if_splits)
    then show ?thesis
    proof
      assume "cur \<noteq> [] \<and> t = cur"
      with Cons.prems(1) show ?thesis by simp
    next
      assume "t \<in> set (split_at sp [] s)"
      with Cons.IH [of "[]"] show ?thesis by simp
    qed
  next
    case False
    with Cons.prems(2) have "t \<in> set (split_at sp (cur @ [c]) s)"
      by simp
    moreover from False Cons.prems(1) have "\<forall>d\<in>set (cur @ [c]). \<not> sp d"
      by simp
    ultimately show ?thesis
      using Cons.IH [of "cur @ [c]"] by blast
  qed
qed

lemma str_split_tokens:
  assumes "t \<in> set (str_split s)"
  shows "t \<noteq> [] \<and> (\<forall>c\<in>set t. \<not> is_space c)"
  using split_at_tokens [of "[]" is_space t s] assms by (simp add: str_split_def)

lemma fold_search_step:
  "fold (search_step box_df pbp_df tid pname) gids (a, b, c) =
     (a + length (filter (\<lambda>g. player_shots_in box_df pbp_df tid pname g \<noteq> []) gids),
      b + sum_list (map (\<lambda>g. length (player_shots_in box_df pbp_df tid pname g)) gids),
      c + sum_list (map (\<lambda>g. count_makes (player_shots_in box_df pbp_df tid pname g)) gids))"
proof (induction gids arbitrary: a b c)
  case Nil
  show ?case by simp
next
  case (Cons g gids)
  show ?case
  proof (cases "player_shots_in box_df pbp_df tid pname g = []")
    case True
    then have "search_step box_df pbp_df tid pname g (a, b, c) = (a, b, c)"
      by (simp add: search_step_def)
    with True Cons.IH [of a b c] show ?thesis
      by (simp add: count_makes_def)
  next
    case False
    then have "search_step box_df pbp_df tid pname g (a, b, c) =
        (a + 1, b + length (player_shots_in box_df pbp_df tid pname g),
         c + count_makes (player_shots_in box_df pbp_df tid pname g))"
      by (simp add: search_step_def Let_def)
    with False Cons.IH [of "a + 1" "b + length (player_shots_in box_df pbp_df tid pname g)"
        "c + count_makes (player_shots_in box_df pbp_df tid pname g)"] show ?thesis
      by simp
  qed
qed

text \<open>The number of games with a shot of the player, among the games of the player's box rows.\<close>

lemma search_result_entry:
  assumes "e \<in> set (search_result box_df pbp_df (pname, tname, tid))"
  shows "player_name e = pname" and "se_team_id e = tid"
    and "total_games e =
           length (filter (\<lambda>g. player_shots_in box_df pbp_df tid pname g \<noteq> [])
                     (player_game_ids box_df pname tid))"
    and "0 < total_games e"
  using assms
  by (auto simp: search_result_def fold_search_step split: if_splits)

lemma search_player_entry:
  assumes "e \<in> set (search_player py_lower py_split box_df pbp_df query)"
  obtains pname tname tid where
    "(pname, tname, tid) \<in> set (map (\<lambda>b. (athlete_display_name b, team_display_name b, box_team_id b)) box_df)"
    "name_matches py_lower (py_split (py_lower query)) pname"
    "e \<in> set (search_result box_df pbp_df (pname, tname, tid))"
proof -
  from assms obtain p where p: "p \<in> set (unique (map (\<lambda>b. (athlete_display_name b, team_display_name b, box_team_id b)) box_df))"
    and m: "name_matches py_lower (py_split (py_lower query)) (fst p)"
    and e: "e \<in> set (search_result box_df pbp_df p)"
    by (auto simp: search_player_def Let_def split: if_splits)
  obtain pname tname tid where pe: "p = (pname, tname, tid)"
    by (cases p) auto
  from p m e pe that show ?thesis
    by (simp add: set_unique)
qed


lemma search_player_total_games:
  assumes "e \<in> set (search_player py_lower py_split box_df pbp_df query)"
  shows "total_games e =
           length (filter (\<lambda>g. player_shots_in box_df pbp_df (se_team_id e) (player_name e) g \<noteq> [])
                     (player_game_ids box_df (player_name e) (se_team_id e)))"
proof -
  from assms obtain pname tname tid where
    "e \<in> set (search_result box_df pbp_df (pname, tname, tid))"
    by (rule search_player_entry)
  from search_result_entry [OF this] show ?thesis
    by simp
qed

lemma name_matches_examples:
  "str_split (lower ''cameron boozer'') = [''cameron'', ''boozer'']"
  "name_matches lower (str_split (lower ''cameron boozer'')) (Some ''Cameron Boozer'')"
  "name_matches lower (str_split (lower ''cameron boozer'')) (Some ''Cameron T. Boozer'')"
  "\<not> name_matches lower (str_split (lower ''cameron boozer'')) (Some ''Cam Boozer'')"
  by (simp_all add: eval_defs)

lemma get_players_percentage:
  assumes "get_players box_df pbp_df gid tid = Inr es" and "e \<in> set es"
  shows "percentage e =
           (if shots e = 0 then PyInt 0 else PyFloat (FMul (TrueDiv (makes e) (shots e)) 100))"
  using assms unfolding get_players_unfold
  by (auto simp: players_row_sel count_makes_def)

lemma create_shot_chart_no_division_error:
  "create_shot_chart player_shots pname gi tid \<noteq> Inl ZeroDivisionError"
  by (simp add: create_shot_chart_def Let_def case_prod_beta split: option.splits)

lemma get_shot_chart_no_division_error:
  "get_shot_chart box_df pbp_df gid tid pname \<noteq> Inl ZeroDivisionError"
proof (cases "filter (\<lambda>r. gi_game_id r = gid) (get_team_games pbp_df tid)")
  case Nil
  then show ?thesis
    by (simp add: get_shot_chart_def case_prod_beta)
next
  case (Cons gi rest)
  define ps where "ps = (if pname = ''Team View'' then fst (get_player_shots box_df pbp_df gid tid)
      else filter (\<lambda>m. merged_name m = Some pname) (fst (get_player_shots box_df pbp_df gid tid)))"
  have eq: "get_shot_chart box_df pbp_df gid tid pname =
      (if length ps = 0 then Inr (NotFound ''No shots found'')
       else case create_shot_chart ps pname gi tid of
              Inl e \<Rightarrow> Inl e
            | Inr img \<Rightarrow>
                Inr (Ok (img, \<lparr> stat_makes = count_makes ps, stat_misses = length ps - count_makes ps,
                                stat_total = length ps,
                                stat_percentage = PyFloat (FMul (TrueDiv (count_makes ps) (length ps)) 100) \<rparr>)))"
    unfolding get_shot_chart_def ps_def Let_def case_prod_beta Cons
    by (simp add: percentage_of_ok split: sum.splits)
  show ?thesis
  proof (cases "create_shot_chart ps pname gi tid")
    case (Inl e)
    with create_shot_chart_no_division_error [of ps pname gi tid] have "e \<noteq> ZeroDivisionError"
      by auto
    with Inl show ?thesis by (simp add: eq)
  next
    case (Inr img)
    then show ?thesis by (simp add: eq)
  qed
qed

lemma season_chart_no_division_error:
  "get_player_season_chart box_df pbp_df tid pname \<noteq> Inl ZeroDivisionError"
  by (simp add: get_player_season_chart_def Let_def percentage_of_ok)

lemma get_shot_chart_stats:
  assumes "get_shot_chart box_df pbp_df gid tid pname = Inr (Ok (ch, st))"
  shows "stat_percentage st = PyFloat (FMul (TrueDiv (stat_makes st) (stat_total st)) 100) \<and>
         0 < stat_total st \<and>
         stat_makes st \<le> stat_total st \<and> stat_misses st = stat_total st - stat_makes st"
proof -
  define ts where "ts = fst (get_player_shots box_df pbp_df gid tid)"
  define ps where "ps = (if pname = ''Team View'' then ts else filter (\<lambda>m. merged_name m = Some pname) ts)"
  from assms have "st = \<lparr> stat_makes = count_makes ps, stat_misses = length ps - count_makes ps,
                           stat_total = length ps,
                           stat_percentage = PyFloat (FMul (TrueDiv (count_makes ps) (length ps)) 100) \<rparr>
                     \<and> ps \<noteq> []"
    unfolding get_shot_chart_def ts_def ps_def
    by (simp add: Let_def case_prod_beta percentage_of_ok split: list.splits if_splits sum.splits)
  then show ?thesis
    by (simp add: count_makes_def)
qed

lemma season_chart_stats:
  assumes "get_player_season_chart box_df pbp_df tid pname = Inr (Ok (ch, st))"
  shows "stat_games st = length (player_game_ids box_df (Some pname) tid)"
    and "title ch = pname @ '' - 2025-26 Season Shot Chart ('' @
                      str_nat (length (player_game_ids box_df (Some pname) tid)) @ '' games)''"
    and "stat_percentage st = PyFloat (FMul (TrueDiv (stat_makes st) (stat_total st)) 100)"
    and "0 < stat_total st"
    and "stat_makes st \<le> stat_total st"
    and "stat_misses st = stat_total st - stat_makes st"
proof -
  define all_shots where
    "all_shots = filter (\<lambda>ps. length ps > 0)
        (map (player_shots_in box_df pbp_df tid (Some pname)) (player_game_ids box_df (Some pname) tid))"
  define cs where "cs = concat all_shots"
  have eq: "get_player_season_chart box_df pbp_df tid pname =
      (if length all_shots = 0 then Inr (NotFound ''No shots found'')
       else if pname = [] \<or> hd pname = CHR '' '' then Inl IndexError
       else Inr (Ok (\<lparr> title = pname @ '' - 2025-26 Season Shot Chart ('' @
                            str_nat (length (player_game_ids box_df (Some pname) tid)) @ '' games)'',
                        made = coords (filter (\<lambda>m. scoring_play (play m)) cs),
                        missed = coords (filter (\<lambda>m. \<not> scoring_play (play m)) cs) \<rparr>,
                      \<lparr> stat_makes = length (filter (\<lambda>m. scoring_play (play m)) cs),
                        stat_misses = length cs - length (filter (\<lambda>m. scoring_play (play m)) cs),
                        stat_total = length cs,
                        stat_percentage =
                          (if length cs = 0 then PyInt 0
                           else PyFloat (FMul (TrueDiv (length (filter (\<lambda>m. scoring_play (play m)) cs))
                                   (length cs)) 100)),
                        stat_games = length (player_game_ids box_df (Some pname) tid) \<rparr>)))"
    unfolding get_player_season_chart_def Let_def percentage_of_ok all_shots_def [symmetric]
      cs_def [symmetric]
    by simp
  from assms have ne: "all_shots \<noteq> []"
    unfolding eq by (auto split: if_splits)
  then obtain x xs where "all_shots = x # xs" by (cases all_shots) auto
  moreover from this have "x \<in> set all_shots" by simp
  then have "x \<noteq> []" by (auto simp: all_shots_def)
  ultimately have pos: "0 < length cs"
    by (simp add: cs_def)
  from assms ne pos have ch: "title ch = pname @ '' - 2025-26 Season Shot Chart ('' @
                      str_nat (length (player_game_ids box_df (Some pname) tid)) @ '' games)''"
    and st: "stat_makes st = length (filter (\<lambda>m. scoring_play (play m)) cs)"
      "stat_misses st = length cs - length (filter (\<lambda>m. scoring_play (play m)) cs)"
      "stat_total st = length cs"
      "stat_percentage st = PyFloat (FMul (TrueDiv (length (filter (\<lambda>m. scoring_play (play m)) cs))
                                   (length cs)) 100)"
      "stat_games st = length (player_game_ids box_df (Some pname) tid)"
    unfolding eq by (auto split: if_splits)
  from st show "stat_games st = length (player_game_ids box_df (Some pname) tid)" by simp
  from ch show "title ch = pname @ '' - 2025-26 Season Shot Chart ('' @
                      str_nat (length (player_game_ids box_df (Some pname) tid)) @ '' games)''" by simp
  from st show "stat_percentage st = PyFloat (FMul (TrueDiv (stat_makes st) (stat_total st)) 100)" by simp
  from st pos show "0 < stat_total st" by simp
  from st show "stat_makes st \<le> stat_total st" by simp
  from st show "stat_misses st = stat_total st - stat_makes st" by simp
qed

lemma player_game_ids_set:
  "set (player_game_ids box_df (Some pname) tid) =
     box_game_id ` {b \<in> set box_df. athlete_display_name b = Some pname \<and> box_team_id b = tid}"
  by (auto simp: player_game_ids_def player_box_rows_def set_unique eq_na_def)

lemma player_game_ids_distinct: "distinct (player_game_ids box_df pname tid)"
  by (simp add: player_game_ids_def distinct_unique)

text \<open>The values of the routes on the example season.\<close>

lemma demo_search:
  "search_player lower str_split demo_box demo_pbp ''cameron boozer'' =
     [\<lparr>player_name = Some ''Cameron Boozer'', team_name = ''Duke'', se_team_id = 150,
        total_games = 2, total_shots = 2, total_makes = 2\<rparr>,
      \<lparr>player_name = Some ''Cameron T. Boozer'', team_name = ''Arkansas'', se_team_id = 8,
        total_games = 1, total_shots = 1, total_makes = 0\<rparr>]"
  by (simp add: eval_defs)

lemma demo_season_chart:
  "get_player_season_chart demo_box demo_pbp 150 ''Cameron Boozer'' =
     Inr (Ok (\<lparr>title = ''Cameron Boozer - 2025-26 Season Shot Chart (3 games)'',
                made = [(0, 0), (0, 0)], missed = []\<rparr>,
              \<lparr>stat_makes = 2, stat_misses = 0, stat_total = 2, stat_percentage = PyFloat (FMul (TrueDiv 2 2) 100),
                stat_games = 3\<rparr>))"
  by code_simp

lemma demo_shot_chart:
  "get_shot_chart demo_box demo_pbp 1001 150 ''Team View'' =
     Inr (Ok (\<lparr>title = ''Team View Shot Chart - vs Arkansas (11/27/2025) (W 80-71)'',
                made = [(0, 0)], missed = [(0, 0)]\<rparr>,
              \<lparr>stat_makes = 1, stat_misses = 1, stat_total = 2,
                stat_percentage = PyFloat (FMul (TrueDiv 1 2) 100)\<rparr>))"
  by (simp add: eval_defs)

lemma demo_players_1003:
  "get_players demo_box demo_pbp 1003 150 =
     Inr [\<lparr>player_id = 0, name = ''Team View'', shots = 0, makes = 0, percentage = PyInt 0\<rparr>,
          \<lparr>player_id = 1, name = ''Cameron Boozer'', shots = 0, makes = 0, percentage = PyInt 0\<rparr>]"
  by (simp add: eval_defs)

lemma demo_tokens: "str_split (lower ''cameron boozer'') = [''cameron'', ''boozer'']"
  by (simp add: eval_defs)

section \<open>Player search\<close>

lemma digit7_lower_char: "digit7 (lower_char c) = digit7 c"
  by (simp add: lower_char_def)

lemma is_ascii_lower: "is_ascii s \<Longrightarrow> is_ascii (lower s)"
  by (simp add: is_ascii_def lower_def list_all_iff digit7_lower_char)

lemma split_at_cong:
  assumes "\<forall>c\<in>set s. p c = q c"
  shows "split_at p cur s = split_at q cur s"
  using assms by (induction s arbitrary: cur) simp_all

lemma latin1_lower_ascii: "is_ascii s \<Longrightarrow> latin1_lower s = lower s"
  by (simp add: is_ascii_def latin1_lower_def lower_def latin1_lower_char_def list_all_iff)

lemma latin1_split_ascii:
  assumes "is_ascii s"
  shows "latin1_split s = str_split s"
proof -
  have "latin1_is_space c = is_space c" if "\<not> digit7 c" for c
    using that by (auto simp: latin1_is_space_def)
  with assms have "\<forall>c\<in>set s. latin1_is_space c = is_space c"
    by (simp add: is_ascii_def list_all_iff)
  then show ?thesis
    unfolding latin1_split_def str_split_def by (rule split_at_cong)
qed

lemma jose_search:
  "search_player latin1_lower latin1_split jose_box jose_pbp jose_query =
     [\<lparr>player_name = Some (''Jos'' @ [CHR 0xE9]), team_name = ''Duke'', se_team_id = 150,
        total_games = 1, total_shots = 1, total_makes = 1\<rparr>]"
  by (simp add: eval_defs)

lemma jose_tokens: "latin1_split (latin1_lower jose_query) = [''jos'' @ [CHR 0xE9]]"
  by (simp add: eval_defs)

text \<open>
  C7. For every query, every entry \<open>search_player\<close> returns is a (player name, team)
  pair of the box score such that every token of the query, as Python's \<open>split\<close> gives
  them for the lower-cased query, is a substring of the lower-cased name. Every returned
  player has a game with a shot, and \<open>total_games\<close> counts the games with a shot among
  the games of the player's box-score rows. Since \<open>lower\<close> and \<open>split\<close> are the ASCII
  ones on ASCII strings, the tokens of an ASCII query are not empty and have no white
  space, and the query "cameron boozer" matches the names "Cameron Boozer" and
  "Cameron T. Boozer" and does not match "Cam Boozer".
\<close>

theorem search_player_results:
  assumes "e \<in> set (search_player py_lower py_split box_df pbp_df query)"
  shows "(\<exists>b \<in> set box_df. athlete_display_name b = player_name e \<and> box_team_id b = se_team_id e) \<and>
         (\<forall>part \<in> set (py_split (py_lower query)).
            sublist part (py_lower (str_cell (player_name e)))) \<and>
         0 < total_games e \<and>
         total_games e =
           length (filter (\<lambda>g. player_shots_in box_df pbp_df (se_team_id e) (player_name e) g \<noteq> [])
                     (player_game_ids box_df (player_name e) (se_team_id e))) \<and>
         (\<exists>g \<in> set (player_game_ids box_df (player_name e) (se_team_id e)).
            player_shots_in box_df pbp_df (se_team_id e) (player_name e) g \<noteq> []) \<and>
         ((\<forall>s. is_ascii s \<longrightarrow> py_lower s = lower s \<and> py_split s = str_split s) \<longrightarrow>
            (is_ascii query \<longrightarrow>
               (\<forall>part \<in> set (py_split (py_lower query)).
                  part \<noteq> [] \<and> (\<forall>c \<in> set part. \<not> is_space c))) \<and>
            py_split (py_lower ''cameron boozer'') = [''cameron'', ''boozer''] \<and>
            name_matches py_lower (py_split (py_lower ''cameron boozer'')) (Some ''Cameron Boozer'') \<and>
            name_matches py_lower (py_split (py_lower ''cameron boozer'')) (Some ''Cameron T. Boozer'') \<and>
            \<not> name_matches py_lower (py_split (py_lower ''cameron boozer'')) (Some ''Cam Boozer''))"
proof -
  from assms obtain pname tname tid where
    p: "(pname, tname, tid) \<in> set (map (\<lambda>b. (athlete_display_name b, team_display_name b, box_team_id b)) box_df)"
    and m: "name_matches py_lower (py_split (py_lower query)) pname"
    and e: "e \<in> set (search_result box_df pbp_df (pname, tname, tid))"
    by (rule search_player_entry)
  note r = search_result_entry [OF e]
  from p r(1,2) have a: "\<exists>b \<in> set box_df. athlete_display_name b = player_name e \<and> box_team_id b = se_team_id e"
    by auto
  from m r(1) have b: "\<forall>part \<in> set (py_split (py_lower query)). sublist part (py_lower (str_cell (player_name e)))"
    by (simp add: name_matches_def list_all_iff)
  from r have c: "0 < total_games e" and d: "total_games e =
           length (filter (\<lambda>g. player_shots_in box_df pbp_df (se_team_id e) (player_name e) g \<noteq> [])
                     (player_game_ids box_df (player_name e) (se_team_id e)))"
    by simp_all
  from c d have "filter (\<lambda>g. player_shots_in box_df pbp_df (se_team_id e) (player_name e) g \<noteq> [])
                     (player_game_ids box_df (player_name e) (se_team_id e)) \<noteq> []"
    by auto
  then have f: "\<exists>g \<in> set (player_game_ids box_df (player_name e) (se_team_id e)).
            player_shots_in box_df pbp_df (se_team_id e) (player_name e) g \<noteq> []"
    by (simp add: filter_empty_conv)
  have g: "(is_ascii query \<longrightarrow>
               (\<forall>part \<in> set (py_split (py_lower query)).
                  part \<noteq> [] \<and> (\<forall>c \<in> set part. \<not> is_space c))) \<and>
            py_split (py_lower ''cameron boozer'') = [''cameron'', ''boozer''] \<and>
            name_matches py_lower (py_split (py_lower ''cameron boozer'')) (Some ''Cameron Boozer'') \<and>
            name_matches py_lower (py_split (py_lower ''cameron boozer'')) (Some ''Cameron T. Boozer'') \<and>
            \<not> name_matches py_lower (py_split (py_lower ''cameron boozer'')) (Some ''Cam Boozer'')"
    if ag: "\<forall>s. is_ascii s \<longrightarrow> py_lower s = lower s \<and> py_split s = str_split s"
  proof -
    have tok: "py_split (py_lower q) = str_split (lower q)" if "is_ascii q" for q
      using ag that is_ascii_lower [of q] by simp
    have nm: "name_matches py_lower (py_split (py_lower q)) (Some n) =
              name_matches lower (str_split (lower q)) (Some n)" if "is_ascii q" "is_ascii n" for q n
      using ag that tok [of q] by (simp add: name_matches_def str_cell_def)
    have asc: "is_ascii ''cameron boozer''" "is_ascii ''Cameron Boozer''"
      "is_ascii ''Cameron T. Boozer''" "is_ascii ''Cam Boozer''"
      by (simp_all add: is_ascii_def)
    have t1: "is_ascii query \<longrightarrow>
               (\<forall>part \<in> set (py_split (py_lower query)).
                  part \<noteq> [] \<and> (\<forall>c \<in> set part. \<not> is_space c))"
      using tok [of query] str_split_tokens by simp
    from tok [OF asc(1)] name_matches_examples(1)
    have t2: "py_split (py_lower ''cameron boozer'') = [''cameron'', ''boozer'']"
      by simp
    from nm [OF asc(1) asc(2)] nm [OF asc(1) asc(3)] nm [OF asc(1) asc(4)] name_matches_examples(2,3,4)
    have t3: "name_matches py_lower (py_split (py_lower ''cameron boozer'')) (Some ''Cameron Boozer'')"
      "name_matches py_lower (py_split (py_lower ''cameron boozer'')) (Some ''Cameron T. Boozer'')"
      "\<not> name_matches py_lower (py_split (py_lower ''cameron boozer'')) (Some ''Cam Boozer'')"
      by simp_all
    from t1 t2 t3 show ?thesis by (intro conjI)
  qed
  from g have gi: "(\<forall>s. is_ascii s \<longrightarrow> py_lower s = lower s \<and> py_split s = str_split s) \<longrightarrow>
            (is_ascii query \<longrightarrow>
               (\<forall>part \<in> set (py_split (py_lower query)).
                  part \<noteq> [] \<and> (\<forall>c \<in> set part. \<not> is_space c))) \<and>
            py_split (py_lower ''cameron boozer'') = [''cameron'', ''boozer''] \<and>
            name_matches py_lower (py_split (py_lower ''cameron boozer'')) (Some ''Cameron Boozer'') \<and>
            name_matches py_lower (py_split (py_lower ''cameron boozer'')) (Some ''Cameron T. Boozer'') \<and>
            \<not> name_matches py_lower (py_split (py_lower ''cameron boozer'')) (Some ''Cam Boozer'')"
    by (rule impI)
  show ?thesis
    by (rule conjI [OF a conjI [OF b conjI [OF c conjI [OF d conjI [OF f gi]]]]])
qed

theorem search_player_results_witness:
  "hd (search_player latin1_lower latin1_split jose_box jose_pbp jose_query)
     \<in> set (search_player latin1_lower latin1_split jose_box jose_pbp jose_query) \<and>
   player_name (hd (search_player latin1_lower latin1_split jose_box jose_pbp jose_query))
     = Some (''Jos'' @ [CHR 0xE9]) \<and>
   latin1_split (latin1_lower jose_query) = [''jos'' @ [CHR 0xE9]] \<and>
   sublist (''jos'' @ [CHR 0xE9])
     (latin1_lower (str_cell (player_name (hd (search_player latin1_lower latin1_split jose_box jose_pbp jose_query))))) \<and>
   0 < total_games (hd (search_player latin1_lower latin1_split jose_box jose_pbp jose_query)) \<and>
   name_matches latin1_lower (latin1_split (latin1_lower ''cameron boozer'')) (Some ''Cameron T. Boozer'') \<and>
   \<not> name_matches latin1_lower (latin1_split (latin1_lower ''cameron boozer'')) (Some ''Cam Boozer'')"
proof -
  have h: "hd (search_player latin1_lower latin1_split jose_box jose_pbp jose_query)
             \<in> set (search_player latin1_lower latin1_split jose_box jose_pbp jose_query)"
    by (simp add: jose_search)
  have n: "player_name (hd (search_player latin1_lower latin1_split jose_box jose_pbp jose_query))
     = Some (''Jos'' @ [CHR 0xE9])"
    by (simp add: jose_search)
  have ag: "\<forall>s. is_ascii s \<longrightarrow> latin1_lower s = lower s \<and> latin1_split s = str_split s"
    by (simp add: latin1_lower_ascii latin1_split_ascii)
  note t = search_player_results [OF h]
  from t have "\<forall>part \<in> set (latin1_split (latin1_lower jose_query)).
      sublist part (latin1_lower (str_cell (player_name
        (hd (search_player latin1_lower latin1_split jose_box jose_pbp jose_query)))))"
    by blast
  then have s: "sublist (''jos'' @ [CHR 0xE9])
     (latin1_lower (str_cell (player_name (hd (search_player latin1_lower latin1_split jose_box jose_pbp jose_query)))))"
    unfolding jose_tokens by simp
  from t have g: "0 < total_games (hd (search_player latin1_lower latin1_split jose_box jose_pbp jose_query))"
    by blast
  from t ag have x: "name_matches latin1_lower (latin1_split (latin1_lower ''cameron boozer'')) (Some ''Cameron T. Boozer'')"
    "\<not> name_matches latin1_lower (latin1_split (latin1_lower ''cameron boozer'')) (Some ''Cam Boozer'')"
    by blast+
  from h n jose_tokens s g x show ?thesis
    by (intro conjI)
qed

section \<open>Shooting percentages\<close>

text \<open>
  C9. In every aggregation that reports a shooting percentage, the entries of
  \<open>get_players\<close> (Team View and each player), the statistics of the single-game shot
  chart and those of the season shot chart, the percentage is the integer 0 when the shot
  count is 0, and otherwise the float that the true division of the makes by the shot
  count, multiplied by 100, gives. No route raises ZeroDivisionError: \<open>get_players\<close>
  always returns its list, and neither chart fails with a division.
\<close>

theorem percentage_zero_guard:
  "(\<exists>es. get_players box_df pbp_df gid tid = Inr es \<and>
      (\<forall>e \<in> set es.
         (shots e = 0 \<longrightarrow> percentage e = PyInt 0) \<and>
         (shots e \<noteq> 0 \<longrightarrow> percentage e = PyFloat (FMul (TrueDiv (makes e) (shots e)) 100)))) \<and>
   get_shot_chart box_df pbp_df gid tid pname \<noteq> Inl ZeroDivisionError \<and>
   (\<forall>ch st. get_shot_chart box_df pbp_df gid tid pname = Inr (Ok (ch, st)) \<longrightarrow>
      (stat_total st = 0 \<longrightarrow> stat_percentage st = PyInt 0) \<and>
      (stat_total st \<noteq> 0 \<longrightarrow>
         stat_percentage st = PyFloat (FMul (TrueDiv (stat_makes st) (stat_total st)) 100))) \<and>
   get_player_season_chart box_df pbp_df tid pname \<noteq> Inl ZeroDivisionError \<and>
   (\<forall>ch st. get_player_season_chart box_df pbp_df tid pname = Inr (Ok (ch, st)) \<longrightarrow>
      (stat_total st = 0 \<longrightarrow> stat_percentage st = PyInt 0) \<and>
      (stat_total st \<noteq> 0 \<longrightarrow>
         stat_percentage st = PyFloat (FMul (TrueDiv (stat_makes st) (stat_total st)) 100)))"
proof -
  obtain es where es: "get_players box_df pbp_df gid tid = Inr es"
    unfolding get_players_unfold by blast
  have a: "(shots e = 0 \<longrightarrow> percentage e = PyInt 0) \<and>
         (shots e \<noteq> 0 \<longrightarrow> percentage e = PyFloat (FMul (TrueDiv (makes e) (shots e)) 100))"
    if "e \<in> set es" for e
    using get_players_percentage [OF es that] by simp
  have b: "(stat_total st = 0 \<longrightarrow> stat_percentage st = PyInt 0) \<and>
      (stat_total st \<noteq> 0 \<longrightarrow>
         stat_percentage st = PyFloat (FMul (TrueDiv (stat_makes st) (stat_total st)) 100))"
    if "get_shot_chart box_df pbp_df gid tid pname = Inr (Ok (ch, st))" for ch st
    using get_shot_chart_stats [OF that] by simp
  have c: "(stat_total st = 0 \<longrightarrow> stat_percentage st = PyInt 0) \<and>
      (stat_total st \<noteq> 0 \<longrightarrow>
         stat_percentage st = PyFloat (FMul (TrueDiv (stat_makes st) (stat_total st)) 100))"
    if "get_player_season_chart box_df pbp_df tid pname = Inr (Ok (ch, st))" for ch st
    using season_chart_stats(3,4) [OF that] by simp
  from es a have "\<exists>es. get_players box_df pbp_df gid tid = Inr es \<and>
      (\<forall>e \<in> set es.
         (shots e = 0 \<longrightarrow> percentage e = PyInt 0) \<and>
         (shots e \<noteq> 0 \<longrightarrow> percentage e = PyFloat (FMul (TrueDiv (makes e) (shots e)) 100)))"
    by blast
  with b c get_shot_chart_no_division_error season_chart_no_division_error show ?thesis
    by blast
qed

theorem percentage_zero_guard_witness:
  "get_players demo_box demo_pbp 1003 150 =
     Inr [\<lparr>player_id = 0, name = ''Team View'', shots = 0, makes = 0, percentage = PyInt 0\<rparr>,
          \<lparr>player_id = 1, name = ''Cameron Boozer'', shots = 0, makes = 0, percentage = PyInt 0\<rparr>] \<and>
   get_shot_chart demo_box demo_pbp 1001 150 ''Team View'' =
     Inr (Ok (\<lparr>title = ''Team View Shot Chart - vs Arkansas (11/27/2025) (W 80-71)'',
                made = [(0, 0)], missed = [(0, 0)]\<rparr>,
              \<lparr>stat_makes = 1, stat_misses = 1, stat_total = 2,
                stat_percentage = PyFloat (FMul (TrueDiv 1 2) 100)\<rparr>)) \<and>
   get_player_season_chart demo_box demo_pbp 150 ''Cameron Boozer'' =
     Inr (Ok (\<lparr>title = ''Cameron Boozer - 2025-26 Season Shot Chart (3 games)'',
                made = [(0, 0), (0, 0)], missed = []\<rparr>,
              \<lparr>stat_makes = 2, stat_misses = 0, stat_total = 2,
                stat_percentage = PyFloat (FMul (TrueDiv 2 2) 100), stat_games = 3\<rparr>)) \<and>
   get_shot_chart demo_box demo_pbp 1001 150 ''Team View'' \<noteq> Inl ZeroDivisionError"
proof -
  from percentage_zero_guard [of demo_box demo_pbp 1001 150 "''Team View''"]
  have "get_shot_chart demo_box demo_pbp 1001 150 ''Team View'' \<noteq> Inl ZeroDivisionError"
    by blast
  with demo_players_1003 demo_shot_chart demo_season_chart show ?thesis
    by (intro conjI)
qed

section \<open>Game counts of the season chart and of the search\<close>

text \<open>
  C10. When the season chart of a player is returned, its game count, in the statistics
  and in the title, is the number of distinct games of the player's box-score rows for the
  team, the games without a shot included. The \<open>total_games\<close> of the player's search
  entry is the number of those games in which the player has a shot. So the search count
  is at most the season count, and is smaller exactly when a box-score row of the player
  references a game without a shot of the player.
\<close>

theorem season_games_vs_search_games:
  assumes c: "get_player_season_chart box_df pbp_df tid pname = Inr (Ok (ch, st))"
    and e: "e \<in> set (search_player py_lower py_split box_df pbp_df query)"
    and n: "player_name e = Some pname" and t: "se_team_id e = tid"
  shows "stat_games st =
           card (box_game_id ` {b \<in> set box_df. athlete_display_name b = Some pname \<and> box_team_id b = tid}) \<and>
         title ch = pname @ '' - 2025-26 Season Shot Chart ('' @ str_nat (stat_games st) @ '' games)'' \<and>
         total_games e =
           card {g \<in> box_game_id ` {b \<in> set box_df. athlete_display_name b = Some pname \<and> box_team_id b = tid}.
                   player_shots_in box_df pbp_df tid (Some pname) g \<noteq> []} \<and>
         total_games e \<le> stat_games st \<and>
         (total_games e < stat_games st \<longleftrightarrow>
            (\<exists>b \<in> set box_df. athlete_display_name b = Some pname \<and> box_team_id b = tid \<and>
                player_shots_in box_df pbp_df tid (Some pname) (box_game_id b) = []))"
proof -
  define gids where "gids = player_game_ids box_df (Some pname) tid"
  define G where "G = box_game_id ` {b \<in> set box_df. athlete_display_name b = Some pname \<and> box_team_id b = tid}"
  define P where "P = (\<lambda>g. player_shots_in box_df pbp_df tid (Some pname) g \<noteq> [])"
  have sg: "set gids = G" and dg: "distinct gids"
    by (simp_all add: gids_def G_def player_game_ids_set player_game_ids_distinct)
  from season_chart_stats(1,2) [OF c] have g: "stat_games st = length gids"
    and ti: "title ch = pname @ '' - 2025-26 Season Shot Chart ('' @ str_nat (stat_games st) @ '' games)''"
    by (simp_all add: gids_def)
  from search_player_total_games [OF e] n t have tg: "total_games e = length (filter P gids)"
    by (simp add: gids_def P_def)
  from g dg sg have a: "stat_games st = card G"
    by (simp add: distinct_card [symmetric])
  from dg have "length (filter P gids) = card ({g. P g} \<inter> set gids)"
    by (rule distinct_length_filter)
  also have "{g. P g} \<inter> set gids = {g \<in> G. P g}"
    using sg by auto
  finally have b: "total_games e = card {g \<in> G. P g}"
    using tg by simp
  have le: "total_games e \<le> stat_games st"
    by (simp add: tg g)
  have "total_games e < stat_games st \<longleftrightarrow> \<not> (\<forall>g\<in>set gids. P g)"
    using length_filter_eq_iff [of P gids] length_filter_le [of P gids]
    unfolding tg g by linarith
  also have "\<dots> \<longleftrightarrow> (\<exists>b \<in> set box_df. athlete_display_name b = Some pname \<and> box_team_id b = tid \<and>
                \<not> P (box_game_id b))"
    unfolding sg G_def by blast
  finally have lt: "total_games e < stat_games st \<longleftrightarrow>
      (\<exists>b \<in> set box_df. athlete_display_name b = Some pname \<and> box_team_id b = tid \<and>
                player_shots_in box_df pbp_df tid (Some pname) (box_game_id b) = [])"
    by (simp add: P_def)
  from a ti b le lt show ?thesis
    unfolding G_def P_def by (intro conjI)
qed

theorem season_games_vs_search_games_witness:
  "get_player_season_chart demo_box demo_pbp 150 ''Cameron Boozer'' =
     Inr (Ok (\<lparr>title = ''Cameron Boozer - 2025-26 Season Shot Chart (3 games)'',
                made = [(0, 0), (0, 0)], missed = []\<rparr>,
              \<lparr>stat_makes = 2, stat_misses = 0, stat_total = 2, stat_percentage = PyFloat (FMul (TrueDiv 2 2) 100),
                stat_games = 3\<rparr>)) \<and>
   hd (search_player lower str_split demo_box demo_pbp ''cameron boozer'')
     \<in> set (search_player lower str_split demo_box demo_pbp ''cameron boozer'') \<and>
   player_name (hd (search_player lower str_split demo_box demo_pbp ''cameron boozer'')) = Some ''Cameron Boozer'' \<and>
   se_team_id (hd (search_player lower str_split demo_box demo_pbp ''cameron boozer'')) = 150 \<and>
   total_games (hd (search_player lower str_split demo_box demo_pbp ''cameron boozer'')) = 2 \<and>
   total_games (hd (search_player lower str_split demo_box demo_pbp ''cameron boozer''))
     \<le> stat_games \<lparr>stat_makes = 2, stat_misses = 0, stat_total = 2, stat_percentage = PyFloat (FMul (TrueDiv 2 2) 100),
                     stat_games = 3\<rparr>"
proof -
  have h: "hd (search_player lower str_split demo_box demo_pbp ''cameron boozer'')
             \<in> set (search_player lower str_split demo_box demo_pbp ''cameron boozer'')"
    "player_name (hd (search_player lower str_split demo_box demo_pbp ''cameron boozer'')) = Some ''Cameron Boozer''"
    "se_team_id (hd (search_player lower str_split demo_box demo_pbp ''cameron boozer'')) = 150"
    "total_games (hd (search_player lower str_split demo_box demo_pbp ''cameron boozer'')) = 2"
    by (simp_all add: demo_search)
  from season_games_vs_search_games [OF demo_season_chart h(1) h(2) h(3)]
  have "total_games (hd (search_player lower str_split demo_box demo_pbp ''cameron boozer''))
     \<le> stat_games \<lparr>stat_makes = 2, stat_misses = 0, stat_total = 2, stat_percentage = PyFloat (FMul (TrueDiv 2 2) 100),
                     stat_games = 3\<rparr>"
    by blast
  with h demo_season_chart show ?thesis
    by (intro conjI)
qed

section \<open>Unknown identifiers\<close>

text \<open>
  The game listing and the shot extraction answer an unknown team or game with an empty
  result; the shot chart raises whenever the team has no game of the requested identifier.
\<close>

lemma get_team_games_unknown_team:
  assumes "\<forall>e\<in>set pbp_df. home_team_id e \<noteq> tid \<and> away_team_id e \<noteq> tid"
  shows "get_team_games pbp_df tid = []" and "get_games pbp_df tid = []"
proof -
  from assms have "team_rows pbp_df tid = []"
    by (simp add: team_rows_def filter_empty_conv)
  then show "get_team_games pbp_df tid = []"
    by (simp add: get_team_games_unfold unique_def)
  then show "get_games pbp_df tid = []"
    by (simp add: get_games_def)
qed

lemma get_player_shots_unknown_game:
  assumes "\<forall>e\<in>set pbp_df. game_id e \<noteq> gid"
  shows "fst (get_player_shots box_df pbp_df gid tid) = []"
proof -
  from assms have "filter (\<lambda>e. game_id e = gid) pbp_df = []"
    by (simp add: filter_empty_conv)
  then show ?thesis
    by (simp add: get_player_shots_def Let_def merge_names_def)
qed

lemma get_shot_chart_no_game:
  assumes "gid \<notin> set (map game_id (team_rows pbp_df tid))"
  shows "get_shot_chart box_df pbp_df gid tid pname = Inl IndexError"
proof -
  from assms have "gid \<notin> set (map gi_game_id (get_team_games pbp_df tid))"
    unfolding get_team_games_ids(2) .
  then have "filter (\<lambda>r. gi_game_id r = gid) (get_team_games pbp_df tid) = []"
    by (auto simp: filter_empty_conv)
  then show ?thesis
    by (simp add: get_shot_chart_def case_prod_beta)
qed

text \<open>
  C1. A request for an identifier the tables do not hold gets an empty result and no
  failure. The game listing and the shot extraction do so; the shot chart does not: it
  takes the first row of the team's games with the requested identifier before it looks
  at the shots, and that raises IndexError for a game the team has not played.
\<close>

theorem get_shot_chart_unknown_game:
  "get_shot_chart demo_box demo_pbp 9999 150 ''Team View'' = Inl IndexError \<and>
   get_shot_chart demo_box demo_pbp 1001 777 ''Team View'' = Inl IndexError"
  by (simp add: eval_defs)

section \<open>Score strings\<close>

text \<open>The score string of the game listing, for either side.\<close>

lemma games_row_score_tbd:
  "score (games_row tid row) = ''TBD'' \<longleftrightarrow> gi_home_score row = None \<or> gi_away_score row = None"
  by (cases "gi_home_score row"; cases "gi_away_score row") (simp_all add: games_row_def)

lemma games_row_score_home:
  assumes "gi_home_team_id row = tid" "gi_home_score row = Some t" "gi_away_score row = Some p"
  shows "score (games_row tid row) = (if t > p then ''W'' else ''L'') @ '' '' @ str_int t @ ''-'' @ str_int p"
  using assms by (simp add: games_row_def)

lemma games_row_score_away:
  assumes "gi_home_team_id row \<noteq> tid" "gi_away_score row = Some t" "gi_home_score row = Some p"
  shows "score (games_row tid row) = (if t > p then ''W'' else ''L'') @ '' '' @ str_int t @ ''-'' @ str_int p"
  using assms by (simp add: games_row_def)

text \<open>
  C2. The score string is "TBD" exactly when one of the two final scores is absent. The
  game listing does so. The listing of a player's games tests the team's score only: with
  the team's score present and the opponent's absent it raises ValueError in
  \<open>int(opp_score)\<close>, where the game listing of the same game says "TBD".
\<close>

theorem get_player_games_missing_opponent_score:
  "get_player_games halfscore_box halfscore_pbp 150 ''Cameron Boozer'' = Inl ValueError \<and>
   map score (get_games halfscore_pbp 150) = [''TBD'']"
  by (simp add: eval_defs)

section \<open>The games of a player\<close>

text \<open>One pass of the loop over the games of the player, and the loop.\<close>

lemma player_shots_in_game:
  assumes "m \<in> set (player_shots_in box_df pbp_df tid pname gid)"
  shows "play m \<in> set (filter (\<lambda>e. game_id e = gid) pbp_df)"
proof -
  from assms have "m \<in> set (merge_names (filter (\<lambda>e. game_id e = gid) pbp_df)
        (map (\<lambda>n. (astype_float (fst n), snd n))
          (unique (map (\<lambda>b. (athlete_id b, athlete_display_name b)) (filter (\<lambda>b. box_game_id b = gid) box_df)))))"
    by (simp add: player_shots_in_def get_player_shots_def Let_def)
  then show ?thesis by (rule merge_names_play)
qed

lemma player_games_row_cases:
  "player_shots_in box_df pbp_df tid (Some pname) gid = [] \<Longrightarrow>
     player_games_row box_df pbp_df tid pname gid = Inr None"
  "player_games_row box_df pbp_df tid pname gid = Inr None \<Longrightarrow>
     player_shots_in box_df pbp_df tid (Some pname) gid = []"
  "player_games_row box_df pbp_df tid pname gid = Inr (Some r) \<Longrightarrow>
     player_shots_in box_df pbp_df tid (Some pname) gid \<noteq> [] \<and> entry_game_id r = gid \<and>
     date r = strftime (game_date (last (filter (\<lambda>e. game_id e = gid) pbp_df))) \<and>
     pg_shots r = length (player_shots_in box_df pbp_df tid (Some pname) gid) \<and>
     pg_makes r = count_makes (player_shots_in box_df pbp_df tid (Some pname) gid)"
proof -
  show "player_shots_in box_df pbp_df tid (Some pname) gid = [] \<Longrightarrow>
     player_games_row box_df pbp_df tid pname gid = Inr None"
    by (simp add: player_games_row_def)
  have ne: "filter (\<lambda>e. game_id e = gid) pbp_df \<noteq> []"
    if "player_shots_in box_df pbp_df tid (Some pname) gid \<noteq> []"
  proof -
    from that obtain m where "m \<in> set (player_shots_in box_df pbp_df tid (Some pname) gid)"
      by (cases "player_shots_in box_df pbp_df tid (Some pname) gid") auto
    from player_shots_in_game [OF this] show ?thesis
      by (auto simp: filter_empty_conv)
  qed
  show "player_games_row box_df pbp_df tid pname gid = Inr None \<Longrightarrow>
     player_shots_in box_df pbp_df tid (Some pname) gid = []"
    using ne
    by (auto simp: player_games_row_def Let_def case_prod_beta split: if_splits option.splits)
  show "player_games_row box_df pbp_df tid pname gid = Inr (Some r) \<Longrightarrow>
     player_shots_in box_df pbp_df tid (Some pname) gid \<noteq> [] \<and> entry_game_id r = gid \<and>
     date r = strftime (game_date (last (filter (\<lambda>e. game_id e = gid) pbp_df))) \<and>
     pg_shots r = length (player_shots_in box_df pbp_df tid (Some pname) gid) \<and>
     pg_makes r = count_makes (player_shots_in box_df pbp_df tid (Some pname) gid)"
    by (auto simp: player_games_row_def Let_def case_prod_beta split: if_splits option.splits)
qed

lemma collect_rows_ids:
  assumes "collect_rows body ks = Inr rs"
    and "\<And>k. body k = Inr None \<Longrightarrow> \<not> P k"
    and "\<And>k r. body k = Inr (Some r) \<Longrightarrow> P k \<and> f r = k"
  shows "map f rs = filter P ks"
  using assms(1)
proof (induction ks arbitrary: rs)
  case Nil
  then show ?case by simp
next
  case (Cons k ks)
  show ?case
  proof (cases "body k")
    case (Inl e)
    with Cons.prems show ?thesis by simp
  next
    case (Inr res)
    show ?thesis
    proof (cases res)
      case None
      with Inr Cons.prems have "collect_rows body ks = Inr rs" by simp
      from Cons.IH [OF this] assms(2) [of k] Inr None show ?thesis by simp
    next
      case (Some r)
      with Inr Cons.prems obtain rs' where c: "collect_rows body ks = Inr rs'" and rs: "rs = r # rs'"
        by (auto split: sum.splits)
      from Cons.IH [OF c] assms(3) [of k r] Inr Some rs show ?thesis by simp
    qed
  qed
qed

text \<open>
  When the listing of a player's games returns, it holds exactly the games of the
  player's box-score rows with a shot of the player, once each, in the order of the
  formatted dates.
\<close>

lemma get_player_games_returned:
  assumes "get_player_games box_df pbp_df tid pname = Inr rs"
  shows "sorted (map date rs)"
    and "distinct (map entry_game_id rs)"
    and "set (map entry_game_id rs) =
           {g \<in> set (player_game_ids box_df (Some pname) tid).
              player_shots_in box_df pbp_df tid (Some pname) g \<noteq> []}"
proof -
  define gids where "gids = player_game_ids box_df (Some pname) tid"
  define P where "P = (\<lambda>g. player_shots_in box_df pbp_df tid (Some pname) g \<noteq> [])"
  from assms obtain rs0 where c: "collect_rows (player_games_row box_df pbp_df tid pname) gids = Inr rs0"
    and rs: "rs = sort_key date rs0"
    by (auto simp: get_player_games_def gids_def split: sum.splits)
  have ids: "map entry_game_id rs0 = filter P gids"
    using c
  proof (rule collect_rows_ids)
    fix k assume "player_games_row box_df pbp_df tid pname k = Inr None"
    then show "\<not> P k" by (simp add: P_def player_games_row_cases(2))
  next
    fix k r assume "player_games_row box_df pbp_df tid pname k = Inr (Some r)"
    from player_games_row_cases(3) [OF this] show "P k \<and> entry_game_id r = k"
      by (simp add: P_def)
  qed
  show "sorted (map date rs)"
    by (simp only: rs sorted_sort_key)
  have "distinct (map entry_game_id rs0)"
    by (simp add: ids gids_def player_game_ids_distinct)
  then have "distinct rs0 \<and> inj_on entry_game_id (set rs0)"
    by (simp only: distinct_map)
  then have "distinct rs \<and> inj_on entry_game_id (set rs)"
    by (simp add: rs)
  then show "distinct (map entry_game_id rs)"
    by (simp only: distinct_map)
  have "set (map entry_game_id rs) = set (map entry_game_id rs0)"
    by (simp only: rs set_map set_sort)
  also have "\<dots> = {g \<in> set gids. P g}"
    by (simp only: ids set_filter)
  finally show "set (map entry_game_id rs) =
           {g \<in> set (player_game_ids box_df (Some pname) tid).
              player_shots_in box_df pbp_df tid (Some pname) g \<noteq> []}"
    by (simp only: gids_def P_def)
qed

text \<open>
  C8. The listing of a player's games returns the games of the player's box-score rows
  in which the player has a shot, sorted by the formatted date. Here the box score has the
  player in the games 1001, 1002 and 1003, with a shot in the first two, and the listing
  raises ValueError instead of returning these two, because the last row of game 1002 has
  the team's score and not the opponent's.
\<close>

theorem get_player_games_raises:
  "player_game_ids demo_box (Some ''Cameron Boozer'') 150 = [1001, 1002, 1003] \<and>
   length (player_shots_in demo_box pending_pbp 150 (Some ''Cameron Boozer'') 1001) = 1 \<and>
   length (player_shots_in demo_box pending_pbp 150 (Some ''Cameron Boozer'') 1002) = 1 \<and>
   length (player_shots_in demo_box pending_pbp 150 (Some ''Cameron Boozer'') 1003) = 0 \<and>
   get_player_games demo_box pending_pbp 150 ''Cameron Boozer'' = Inl ValueError"
  by (simp add: eval_defs)

section \<open>The join of the names across representations\<close>





lemma float_of_int_examples:
  "float_of_int 4433137 = 4433137"
  "float_of_int 9007199254740993 = 9007199254740992"
  by (simp_all add: float_of_int_def bit_length.simps)



end
